theory Spec2Isabelle
  imports Main
begin

section \<open>Text\<close>

text \<open>
  The program is a Go \<^verbatim>\<open>main\<close> that registers a list of \<^verbatim>\<open>local.Command\<close> resources.
  Each resource carries a create script and (sometimes) a delete script for \<^verbatim>\<open>/bin/sh\<close>,
  an environment map and a dependency list.  Strings are byte lists; what a command
  prints is the list of its lines.
\<close>

definition nl :: char where
  "nl = CHR 0x0A"

definition tabc :: char where
  "tabc = CHR 0x09"

definition squote :: char where
  "squote = CHR 0x27"

definition bslash :: char where
  "bslash = CHR 0x5C"

fun starts_with :: "string \<Rightarrow> string \<Rightarrow> bool" where
  "starts_with s [] = True"
| "starts_with [] (p # ps) = False"
| "starts_with (c # cs) (p # ps) = (c = p \<and> starts_with cs ps)"

fun contains :: "string \<Rightarrow> string \<Rightarrow> bool" where
  "contains [] p = (p = [])"
| "contains (c # cs) p = (starts_with (c # cs) p \<or> contains cs p)"

fun split_on :: "char \<Rightarrow> string \<Rightarrow> string list" where
  "split_on d [] = [[]]"
| "split_on d (c # cs) =
     (if c = d then [] # split_on d cs
      else (case split_on d cs of [] \<Rightarrow> [[c]] | f # fs \<Rightarrow> (c # f) # fs))"

fun join_with :: "string \<Rightarrow> string list \<Rightarrow> string" where
  "join_with sep [] = []"
| "join_with sep [x] = x"
| "join_with sep (x # y # ys) = x @ sep @ join_with sep (y # ys)"

definition digit :: "nat \<Rightarrow> char" where
  "digit n = ''0123456789'' ! n"

fun dec :: "nat \<Rightarrow> string" where
  "dec n = (if n < 10 then [digit n] else dec (n div 10) @ [digit (n mod 10)])"

declare dec.simps [simp del]

definition digit_val :: "char \<Rightarrow> nat option" where
  "digit_val c = map_of (zip ''0123456789'' [0, 1, 2, 3, 4, 5, 6, 7, 8, 9]) c"

fun undec_acc :: "nat \<Rightarrow> string \<Rightarrow> nat option" where
  "undec_acc a [] = Some a"
| "undec_acc a (c # cs) =
     (case digit_val c of None \<Rightarrow> None | Some d \<Rightarrow> undec_acc (10 * a + d) cs)"

definition undec :: "string \<Rightarrow> nat option" where
  "undec s = (if s = [] then None else undec_acc 0 s)"

section \<open>The shell\<close>

text \<open>
  The command provider hands each script to \<^verbatim>\<open>/bin/sh -c\<close> (without \<^verbatim>\<open>-e\<close>), so the
  exit status of a script is the status of the last command it ran.  The scripts use a
  small part of the shell: simple commands with redirections, pipelines, \<^verbatim>\<open>||\<close> and
  \<^verbatim>\<open>&&\<close>, \<^verbatim>\<open>if\<close>, \<^verbatim>\<open>for\<close> over a command substitution, \<^verbatim>\<open>break\<close>, \<^verbatim>\<open>exit\<close>,
  \<^verbatim>\<open>export\<close> and assignment of a command substitution.
\<close>

datatype part = Lit string | Var string

type_synonym word = "part list"

datatype redir =
    Out_null                    \<comment> \<open>\<^verbatim>\<open>>/dev/null\<close>\<close>
  | Err_null                    \<comment> \<open>\<^verbatim>\<open>2>/dev/null\<close>\<close>
  | Err_out                     \<comment> \<open>\<^verbatim>\<open>2>&1\<close>\<close>
  | Out_file word               \<comment> \<open>\<^verbatim>\<open>> file\<close>\<close>
  | Here string "string list"   \<comment> \<open>\<^verbatim>\<open><<'TAG'\<close> with the lines up to \<^verbatim>\<open>TAG\<close>\<close>

record simple =
  pre :: "(string \<times> word) list"    \<comment> \<open>assignments in front of the command name\<close>
  args :: "word list"
  redirs :: "redir list"

datatype sh =
    Run "simple list"       \<comment> \<open>a pipeline \<^verbatim>\<open>c1 | c2 | ...\<close>\<close>
  | Assign string sh        \<comment> \<open>\<^verbatim>\<open>V=$(...)\<close>\<close>
  | Export string word      \<comment> \<open>\<^verbatim>\<open>export V=word\<close>\<close>
  | Or sh sh                \<comment> \<open>\<^verbatim>\<open>a || b\<close>\<close>
  | And sh sh               \<comment> \<open>\<^verbatim>\<open>a && b\<close>\<close>
  | Seq sh sh               \<comment> \<open>\<^verbatim>\<open>a\<close> newline \<^verbatim>\<open>b\<close>\<close>
  | If sh sh sh             \<comment> \<open>\<^verbatim>\<open>if c; then t else e fi\<close>\<close>
  | When sh sh              \<comment> \<open>\<^verbatim>\<open>if c; then t fi\<close>\<close>
  | For string sh sh        \<comment> \<open>\<^verbatim>\<open>for v in $(g); do b done\<close>\<close>
  | Break
  | Exit nat

text \<open>
  What the script does to the outside is recorded as a trace: every simple command that
  ran, with its arguments, its standard input, the environment it was given and the
  status it returned, and every file a redirection wrote.
\<close>

record call =
  argv :: "string list"
  input :: "string list"
  cenv :: "(string \<times> string) list"

datatype event = Exec call nat | Wrote string "string list"

datatype flow = Normal | Breaking | Exiting

record 'w shell =
  world :: 'w
  vars :: "(string \<times> string) list"
  exported :: "string list"
  status :: nat
  flow :: flow
  stdout :: "string list"
  xtrace :: "event list"

text \<open>
  Commands the scripts only call (mkdir, rm, sleep, limactl, talosctl, kubectl, docker
  and the rest) are answered by the environment: a function from the state of the
  outside world and the call to a status, the lines written to standard output and the
  next state of the world.
\<close>

type_synonym 'w ext = "'w \<Rightarrow> call \<Rightarrow> nat \<times> string list \<times> 'w"

definition lookup :: "(string \<times> string) list \<Rightarrow> string \<Rightarrow> string" where
  "lookup vs v = (case map_of vs v of None \<Rightarrow> [] | Some x \<Rightarrow> x)"

fun expand_part :: "(string \<times> string) list \<Rightarrow> part \<Rightarrow> string" where
  "expand_part vs (Lit s) = s"
| "expand_part vs (Var v) = lookup vs v"

definition expand :: "(string \<times> string) list \<Rightarrow> word \<Rightarrow> string" where
  "expand vs w = concat (map (expand_part vs) w)"

subsection \<open>Utilities whose results the scripts compute with\<close>

definition is_space :: "char \<Rightarrow> bool" where
  "is_space c = (c = CHR '' '' \<or> c = tabc \<or> c = nl)"

fun fields_acc :: "string \<Rightarrow> string \<Rightarrow> string list" where
  "fields_acc cur [] = (if cur = [] then [] else [cur])"
| "fields_acc cur (c # cs) =
     (if is_space c then (if cur = [] then fields_acc [] cs else cur # fields_acc [] cs)
      else fields_acc (cur @ [c]) cs)"

definition shell_fields :: "string \<Rightarrow> string list" where
  "shell_fields s = fields_acc [] s"

fun strip_trailing :: "string list \<Rightarrow> string list" where
  "strip_trailing [] = []"
| "strip_trailing (l # ls) =
     (case strip_trailing ls of [] \<Rightarrow> (if l = [] then [] else [l]) | r # rs \<Rightarrow> l # r # rs)"

definition capture :: "string list \<Rightarrow> string" where
  "capture ls = join_with [nl] (strip_trailing ls)"

definition plain_pattern :: "string \<Rightarrow> bool" where
  "plain_pattern p = (p \<noteq> [] \<and> list_all (\<lambda>c. c \<notin> set ''.[]*^$'' \<and> c \<noteq> bslash) p)"

definition test :: "string list \<Rightarrow> nat" where
  "test ws =
     (case ws of
        [a, op, b] \<Rightarrow>
          (if op = ''='' then (if a = b then 0 else 1)
           else if op = ''-gt'' then
             (case (undec a, undec b) of
                (Some m, Some n) \<Rightarrow> (if n < m then 0 else 1)
              | _ \<Rightarrow> 2)
           else 2)
      | _ \<Rightarrow> 2)"

definition utility :: "string list \<Rightarrow> string list \<Rightarrow> (nat \<times> string list) option" where
  "utility av inp =
     (case av of
        [] \<Rightarrow> Some (0, [])
      | c # as \<Rightarrow>
          if c = ''echo'' then Some (0, split_on nl (join_with '' '' as))
          else if c = ''true'' then Some (0, [])
          else if c = ''['' then
            (if as \<noteq> [] \<and> last as = '']'' then Some (test (butlast as), []) else Some (2, []))
          else if c = ''cat'' \<and> as = [] then Some (0, inp)
          else if c = ''seq'' then
            (case as of
               [a, b] \<Rightarrow>
                 (case (undec a, undec b) of
                    (Some m, Some n) \<Rightarrow> Some (0, map dec [m..<Suc n])
                  | _ \<Rightarrow> None)
             | _ \<Rightarrow> None)
          else if c = ''grep'' then
            (case as of
               [opt, p] \<Rightarrow>
                 (if plain_pattern p \<and> opt = ''-c'' then
                    (let n = length (filter (\<lambda>l. contains l p) inp)
                     in Some (if 0 < n then 0 else 1, [dec n]))
                  else if plain_pattern p \<and> opt = ''-q'' then
                    Some (if list_ex (\<lambda>l. contains l p) inp then 0 else 1, [])
                  else None)
             | _ \<Rightarrow> None)
          else if av = [''wc'', ''-l''] then
            (let d = dec (length inp) in Some (0, [replicate (8 - length d) CHR '' '' @ d]))
          else if av = [''tr'', ''-d'', '' ''] then
            Some (0, map (filter (\<lambda>ch. ch \<noteq> CHR '' '')) inp)
          else None)"

subsection \<open>Running a script\<close>

fun heredoc :: "redir list \<Rightarrow> string list option" where
  "heredoc [] = None"
| "heredoc (Here tag ls # rs) = Some ls"
| "heredoc (r # rs) = heredoc rs"

fun out_file :: "redir list \<Rightarrow> word option" where
  "out_file [] = None"
| "out_file (Out_file f # rs) = Some f"
| "out_file (r # rs) = out_file rs"

definition call_env :: "'w shell \<Rightarrow> (string \<times> word) list \<Rightarrow> (string \<times> string) list" where
  "call_env s p =
     map (\<lambda>(k, w). (k, expand (vars s) w)) p @
     map (\<lambda>k. (k, lookup (vars s) k)) (remdups (exported s))"

definition exec :: "'w ext \<Rightarrow> simple \<Rightarrow> string list \<Rightarrow> 'w shell \<Rightarrow> nat \<times> string list \<times> 'w shell" where
  "exec x c inp s =
     (let cl = \<lparr>argv = map (expand (vars s)) (args c),
                input = (case heredoc (redirs c) of None \<Rightarrow> inp | Some ls \<Rightarrow> ls),
                cenv = call_env s (pre c)\<rparr>
      in case (case utility (argv cl) (input cl) of
                 None \<Rightarrow> x (world s) cl
               | Some (st, out) \<Rightarrow> (st, out, world s)) of
           (st, out, w) \<Rightarrow>
             (case out_file (redirs c) of
                Some f \<Rightarrow>
                  (st, [], s\<lparr>world := w,
                             xtrace := xtrace s @ [Exec cl st, Wrote (expand (vars s) f) out]\<rparr>)
              | None \<Rightarrow>
                  (st, if Out_null \<in> set (redirs c) then [] else out,
                   s\<lparr>world := w, xtrace := xtrace s @ [Exec cl st]\<rparr>)))"

text \<open>
  A pipeline is run left to right, each command reading what the one before it wrote;
  its status is the status of its last command.
\<close>

fun pipeline :: "'w ext \<Rightarrow> simple list \<Rightarrow> string list \<Rightarrow> 'w shell \<Rightarrow> nat \<times> string list \<times> 'w shell" where
  "pipeline x [] inp s = (0, inp, s)"
| "pipeline x [c] inp s = exec x c inp s"
| "pipeline x (c # d # cs) inp s =
     (case exec x c inp s of (st, out, s') \<Rightarrow> pipeline x (d # cs) out s')"

text \<open>
  A command substitution runs in a subshell: what it prints is captured, its \<^verbatim>\<open>break\<close> or
  \<^verbatim>\<open>exit\<close> and its variables stay inside, what it does to the world and its status
  remain.
\<close>

fun eval :: "'w ext \<Rightarrow> sh \<Rightarrow> 'w shell \<Rightarrow> 'w shell"
and iterate :: "'w ext \<Rightarrow> string \<Rightarrow> string list \<Rightarrow> sh \<Rightarrow> 'w shell \<Rightarrow> 'w shell" where
  "eval x (Run p) s =
     (case pipeline x p [] s of (st, out, s') \<Rightarrow> s'\<lparr>status := st, stdout := stdout s' @ out\<rparr>)"
| "eval x (Assign v c) s =
     (let r = eval x c (s\<lparr>stdout := [], flow := Normal\<rparr>)
      in s\<lparr>world := world r, xtrace := xtrace r, status := status r,
           vars := (v, capture (stdout r)) # vars s\<rparr>)"
| "eval x (Export v w) s =
     s\<lparr>vars := (v, expand (vars s) w) # vars s, exported := v # exported s, status := 0\<rparr>"
| "eval x (Or a b) s =
     (let r = eval x a s in if flow r = Normal \<and> status r \<noteq> 0 then eval x b r else r)"
| "eval x (And a b) s =
     (let r = eval x a s in if flow r = Normal \<and> status r = 0 then eval x b r else r)"
| "eval x (Seq a b) s =
     (let r = eval x a s in if flow r = Normal then eval x b r else r)"
| "eval x (If c t e) s =
     (let r = eval x c s
      in if flow r \<noteq> Normal then r else if status r = 0 then eval x t r else eval x e r)"
| "eval x (When c t) s =
     (let r = eval x c s
      in if flow r \<noteq> Normal then r else if status r = 0 then eval x t r else r\<lparr>status := 0\<rparr>)"
| "eval x (For v g b) s =
     (let r = eval x g (s\<lparr>stdout := [], flow := Normal\<rparr>)
      in iterate x v (shell_fields (capture (stdout r))) b
           (s\<lparr>world := world r, xtrace := xtrace r, status := 0\<rparr>))"
| "eval x Break s = s\<lparr>flow := Breaking, status := 0\<rparr>"
| "eval x (Exit n) s = s\<lparr>flow := Exiting, status := n\<rparr>"
| "iterate x v [] b s = s"
| "iterate x v (i # is) b s =
     (let r = eval x b (s\<lparr>vars := (v, i) # vars s\<rparr>)
      in case flow r of
           Normal \<Rightarrow> iterate x v is b r
         | Breaking \<Rightarrow> r\<lparr>flow := Normal\<rparr>
         | Exiting \<Rightarrow> r)"

fun block :: "sh list \<Rightarrow> sh" where
  "block [] = Run []"
| "block [c] = c"
| "block (c # d # cs) = Seq c (block (d # cs))"

definition start :: "'w \<Rightarrow> (string \<times> string) list \<Rightarrow> 'w shell" where
  "start w env = \<lparr>world = w, vars = env, exported = map fst env, status = 0, flow = Normal,
                  stdout = [], xtrace = []\<rparr>"

definition run_script :: "'w ext \<Rightarrow> (string \<times> string) list \<Rightarrow> sh \<Rightarrow> 'w \<Rightarrow> 'w shell" where
  "run_script x env c w = eval x c (start w env)"

text \<open>
  A string that the shell reads as one word, unchanged: not empty, and made of letters,
  digits, slashes, dots, underscores and hyphens only.  The programs paste their paths
  into the scripts without quotes, so a script is what the definitions below say only for
  a home directory that is such a word; with a blank in it the shell would split the
  path.
\<close>

definition shell_word :: "string \<Rightarrow> bool" where
  "shell_word s =
     (s \<noteq> [] \<and>
      list_all (\<lambda>c. c \<in> set ''abcdefghijklmnopqrstuvwxyzABCDEFGHIJKLMNOPQRSTUVWXYZ0123456789/._-'') s)"

section \<open>The Go standard library functions the program calls\<close>

text \<open>
  \<^verbatim>\<open>fmt.Sprintf\<close> with the only verb the program uses, \<^verbatim>\<open>%s\<close>, and Go's markers for a
  missing or a surplus operand.
\<close>

fun sprintf :: "string \<Rightarrow> string list \<Rightarrow> string" where
  "sprintf [] [] = []"
| "sprintf [] (a # as) =
     ''%!(EXTRA '' @ join_with '', '' (map (\<lambda>v. ''string='' @ v) (a # as)) @ '')''"
| "sprintf (c # f) as =
     (if c = CHR ''%'' \<and> starts_with f ''s'' then
        (case as of
           [] \<Rightarrow> ''%!s(MISSING)'' @ sprintf (tl f) []
         | a # as' \<Rightarrow> a @ sprintf (tl f) as')
      else c # sprintf f as)"

text \<open>\<^verbatim>\<open>filepath.Join\<close> on a Unix host: the non-empty elements joined by a slash, then cleaned.\<close>

definition clean_step :: "bool \<Rightarrow> string list \<Rightarrow> string \<Rightarrow> string list" where
  "clean_step rooted st c =
     (if c = ''..'' then
        (if st \<noteq> [] \<and> last st \<noteq> ''..'' then butlast st
         else if rooted then st else st @ [c])
      else st @ [c])"

definition clean :: "string \<Rightarrow> string" where
  "clean p =
     (let rooted = starts_with p ''/'';
          comps = filter (\<lambda>c. c \<noteq> [] \<and> c \<noteq> ''.'') (split_on CHR ''/'' p);
          body = join_with ''/'' (foldl (clean_step rooted) [] comps);
          r = (if rooted then ''/'' @ body else body)
      in if r = [] then ''.'' else r)"

definition filepath_Join :: "string list \<Rightarrow> string" where
  "filepath_Join es =
     (let ne = filter (\<lambda>e. e \<noteq> []) es
      in if ne = [] then [] else clean (join_with ''/'' ne))"

section \<open>The resources\<close>

text \<open>
  One \<^verbatim>\<open>local.NewCommand\<close> call: the resource name, the three fields of
  \<^verbatim>\<open>CommandArgs\<close> the program sets and the resources named in \<^verbatim>\<open>pulumi.DependsOn\<close>.
  The scripts are given as the shell reads them once \<^verbatim>\<open>Sprintf\<close> has filled in the names
  and paths, for a home directory that is a single shell word (\<open>shell_word\<close>, which the
  properties of the scripts assume).
\<close>

record command =
  name :: string
  create :: sh
  delete :: "sh option"
  environment :: "(string \<times> string) list"
  depends_on :: "string list"

definition cmd :: "string list \<Rightarrow> redir list \<Rightarrow> simple" where
  "cmd ws rs = \<lparr>pre = [], args = map (\<lambda>s. [Lit s]) ws, redirs = rs\<rparr>"

definition run :: "string list \<Rightarrow> sh" where
  "run ws = Run [cmd ws []]"

definition echo :: "string \<Rightarrow> sh" where
  "echo s = Run [cmd [''echo'', s] []]"

definition echo_w :: "word \<Rightarrow> sh" where
  "echo_w w = Run [\<lparr>pre = [], args = [[Lit ''echo''], w], redirs = []\<rparr>]"

definition quoted :: "string \<Rightarrow> string" where
  "quoted s = [squote] @ s @ [squote]"

subsection \<open>Configuration and paths\<close>

definition clusterName :: string where
  "clusterName = ''talos-local''"

definition vmName :: string where
  "vmName = ''talos-docker''"

definition talosDir :: "string \<Rightarrow> string" where
  "talosDir homeDir = filepath_Join [homeDir, ''.talos'']"

definition talosConfigPath :: "string \<Rightarrow> string" where
  "talosConfigPath homeDir = filepath_Join [talosDir homeDir, ''config'']"

definition kubeconfigPath :: "string \<Rightarrow> string" where
  "kubeconfigPath homeDir = filepath_Join [homeDir, ''.kube'', ''talos-config'']"

definition dockerSocket :: "string \<Rightarrow> string" where
  "dockerSocket homeDir = filepath_Join [homeDir, ''.lima'', vmName, ''sock'', ''docker.sock'']"

definition dockerHost :: "string \<Rightarrow> string" where
  "dockerHost homeDir = sprintf ''unix://%s'' [dockerSocket homeDir]"

definition limaConfigPath :: string where
  "limaConfigPath = ''./talos-docker.yaml''"

definition talosctl :: string where
  "talosctl = ''/opt/homebrew/bin/talosctl''"

subsection \<open>Scripts shared in shape by both programs\<close>

text \<open>The node-readiness loop of \<^verbatim>\<open>wait-for-kubernetes\<close>, and what one round of it does.\<close>

definition get_nodes :: simple where
  "get_nodes = cmd [''kubectl'', ''get'', ''nodes'', ''--no-headers''] [Err_null]"

definition count_ready :: sh where
  "count_ready =
     Assign ''READY''
       (Or (Run [get_nodes, cmd [''grep'', ''-c'', '' Ready ''] []]) (echo ''0''))"

definition count_total :: sh where
  "count_total =
     Assign ''TOTAL''
       (Or (Run [get_nodes, cmd [''wc'', ''-l''] [], cmd [''tr'', ''-d'', '' ''] []]) (echo ''0''))"

definition all_ready :: sh where
  "all_ready =
     And (Run [\<lparr>pre = [], args = [[Lit ''[''], [Var ''READY''], [Lit ''=''], [Var ''TOTAL''], [Lit '']'']],
                 redirs = []\<rparr>])
         (Run [\<lparr>pre = [], args = [[Lit ''[''], [Var ''TOTAL''], [Lit ''-gt''], [Lit ''0''], [Lit '']'']],
                 redirs = []\<rparr>])"

definition nodes_round :: sh where
  "nodes_round = block [
     count_ready,
     count_total,
     When all_ready
          (block [
             echo_w [Lit ''All '', Var ''TOTAL'', Lit '' nodes are ready''],
             Break]),
     echo_w [Lit ''Waiting for nodes... ('', Var ''READY'', Lit ''/'', Var ''TOTAL'', Lit '' ready)''],
     run [''sleep'', ''5'']]"

definition nodes_loop :: sh where
  "nodes_loop = For ''i'' (run [''seq'', ''1'', ''60'']) nodes_round"

definition wait_pods :: sh where
  "wait_pods =
     Or (Run [cmd [''kubectl'', ''wait'', ''--for=condition=Ready'', ''pods'', ''--all'', ''-n'',
                   ''kube-system'', ''--timeout=300s''] [Err_null]])
        (run [''true''])"

text \<open>The manifest of \<^verbatim>\<open>apply-security-hardening\<close>: the lines between the \<^verbatim>\<open>NETPOL\<close> marks.\<close>

definition netpol :: "string list" where
  "netpol = [
      ''apiVersion: networking.k8s.io/v1'',
      ''kind: NetworkPolicy'',
      ''metadata:'',
      ''  name: default-deny-all'',
      ''  namespace: default'',
      ''spec:'',
      ''  podSelector: {}'',
      ''  policyTypes:'',
      ''  - Ingress'',
      ''  - Egress'',
      ''---'',
      ''apiVersion: networking.k8s.io/v1'',
      ''kind: NetworkPolicy'',
      ''metadata:'',
      ''  name: allow-dns'',
      ''  namespace: default'',
      ''spec:'',
      ''  podSelector: {}'',
      ''  policyTypes:'',
      ''  - Egress'',
      ''  egress:'',
      ''  - to:'',
      ''    - namespaceSelector:'',
      ''        matchLabels:'',
      ''          kubernetes.io/metadata.name: kube-system'',
      ''    ports:'',
      ''    - protocol: UDP'',
      ''      port: 53'',
      ''    - protocol: TCP'',
      ''      port: 53'']"

definition label :: "string \<Rightarrow> string \<Rightarrow> sh" where
  "label ns l = run [''kubectl'', ''label'', ''namespace'', ns, l, ''--overwrite'']"

definition apply_netpol :: sh where
  "apply_netpol =
     Run [\<lparr>pre = [], args = [[Lit ''cat'']], redirs = [Here ''NETPOL'' netpol]\<rparr>,
          cmd [''kubectl'', ''apply'', ''-f'', ''-''] []]"

definition rule :: string where
  "rule = replicate 69 CHR ''=''"

subsection \<open>The program of \<^verbatim>\<open>main.go\<close>\<close>

definition createTalosDir :: "string \<Rightarrow> command" where
  "createTalosDir homeDir =
     \<lparr>name = ''create-talos-dir'',
      create = run [''mkdir'', ''-p'', talosDir homeDir],
      delete = None,
      environment = [],
      depends_on = []\<rparr>"

definition createCluster_create :: sh where
  "createCluster_create = block [
     When (Run [cmd [talosctl, ''cluster'', ''show'', ''--name'', clusterName] [Out_null, Err_out]])
          (block [
             echo (''Talos cluster '' @ quoted clusterName @ '' already exists''),
             Exit 0]),
     echo (''Creating Talos cluster '' @ quoted clusterName @ ''...''),
     run [talosctl, ''cluster'', ''create'',
          ''--name'', clusterName,
          ''--controlplanes'', ''1'',
          ''--workers'', ''2'',
          ''--wait'',
          ''--wait-timeout'', ''10m''],
     echo (''Talos cluster '' @ quoted clusterName @ '' created successfully'')]"

definition createCluster_delete :: sh where
  "createCluster_delete = block [
     echo (''Destroying Talos cluster '' @ quoted clusterName @ ''...''),
     Or (Run [cmd [talosctl, ''cluster'', ''destroy'', ''--name'', clusterName] [Err_null]])
        (run [''true'']),
     echo (''Talos cluster '' @ quoted clusterName @ '' destroyed'')]"

definition createCluster :: "string \<Rightarrow> command" where
  "createCluster homeDir =
     \<lparr>name = ''create-talos-cluster'',
      create = createCluster_create,
      delete = Some createCluster_delete,
      environment = [(''TALOSCONFIG'', talosConfigPath homeDir)],
      depends_on = [''create-talos-dir'']\<rparr>"

definition exportKubeconfig_create :: "string \<Rightarrow> sh" where
  "exportKubeconfig_create homeDir = block [
     echo (''Exporting kubeconfig to '' @ kubeconfigPath homeDir @ ''...''),
     run [''sleep'', ''5''],
     run [talosctl, ''kubeconfig'', kubeconfigPath homeDir, ''--force'', ''--name'', clusterName],
     If (Run [cmd [''kubectl'', ''--kubeconfig'', kubeconfigPath homeDir, ''get'', ''nodes'']
                  [Out_null, Err_out]])
        (block [
           echo ''Kubeconfig exported successfully'',
           run [''kubectl'', ''--kubeconfig'', kubeconfigPath homeDir, ''get'', ''nodes'']])
        (echo ''Warning: kubectl not able to connect yet, cluster may still be initializing'')]"

definition exportKubeconfig :: "string \<Rightarrow> command" where
  "exportKubeconfig homeDir =
     \<lparr>name = ''export-kubeconfig'',
      create = exportKubeconfig_create homeDir,
      delete = Some (run [''rm'', ''-f'', kubeconfigPath homeDir]),
      environment = [(''TALOSCONFIG'', talosConfigPath homeDir)],
      depends_on = [''create-talos-cluster'']\<rparr>"

definition waitForK8s_create :: "string \<Rightarrow> sh" where
  "waitForK8s_create homeDir = block [
     Export ''KUBECONFIG'' [Lit (kubeconfigPath homeDir)],
     echo ''Waiting for Kubernetes nodes to be ready...'',
     nodes_loop,
     echo ''Waiting for system pods...'',
     wait_pods,
     echo ''Kubernetes is ready'',
     run [''kubectl'', ''get'', ''nodes'', ''-o'', ''wide'']]"

definition waitForK8s :: "string \<Rightarrow> command" where
  "waitForK8s homeDir =
     \<lparr>name = ''wait-for-kubernetes'',
      create = waitForK8s_create homeDir,
      delete = None,
      environment = [(''KUBECONFIG'', kubeconfigPath homeDir)],
      depends_on = [''export-kubeconfig'']\<rparr>"

definition applySecurityHardening_create :: "string \<Rightarrow> sh" where
  "applySecurityHardening_create homeDir = block [
     Export ''KUBECONFIG'' [Lit (kubeconfigPath homeDir)],
     echo ''Applying security hardening...'',
     label ''kube-system'' ''pod-security.kubernetes.io/enforce=privileged'',
     label ''kube-system'' ''pod-security.kubernetes.io/warn=baseline'',
     label ''default'' ''pod-security.kubernetes.io/enforce=restricted'',
     label ''default'' ''pod-security.kubernetes.io/warn=restricted'',
     apply_netpol,
     echo ''Security hardening applied:'',
     echo ''- Pod Security Standards: privileged for kube-system, restricted for default'',
     echo ''- Default NetworkPolicy: deny-all with DNS egress allowed'']"

definition applySecurityHardening :: "string \<Rightarrow> command" where
  "applySecurityHardening homeDir =
     \<lparr>name = ''apply-security-hardening'',
      create = applySecurityHardening_create homeDir,
      delete = None,
      environment = [(''KUBECONFIG'', kubeconfigPath homeDir)],
      depends_on = [''wait-for-kubernetes'']\<rparr>"

definition verifyCluster_create :: "string \<Rightarrow> sh" where
  "verifyCluster_create homeDir = block [
     Export ''KUBECONFIG'' [Lit (kubeconfigPath homeDir)],
     echo rule,
     echo ''Talos Cluster Ready'',
     echo rule,
     echo [],
     echo (''Cluster: '' @ clusterName),
     echo (''Kubeconfig: '' @ kubeconfigPath homeDir),
     echo (''Talosconfig: '' @ talosConfigPath homeDir),
     echo [],
     echo ''Security Features (built into Talos):'',
     echo ''  - Immutable OS (no shell, no SSH)'',
     echo ''  - API-only management'',
     echo ''  - Encryption at rest for etcd'',
     echo ''  - Secure boot capable'',
     echo ''  - Minimal attack surface'',
     echo [],
     echo ''Applied Hardening:'',
     echo ''  - Pod Security Standards enforced'',
     echo ''  - Default-deny NetworkPolicies'',
     echo [],
     echo ''Nodes:'',
     run [''kubectl'', ''get'', ''nodes'', ''-o'', ''wide''],
     echo [],
     echo ''System Pods:'',
     run [''kubectl'', ''get'', ''pods'', ''-n'', ''kube-system''],
     echo [],
     echo rule,
     echo ''Usage:'',
     echo (''  export KUBECONFIG='' @ kubeconfigPath homeDir),
     echo ''  kubectl get nodes'',
     echo (''  talosctl --talosconfig '' @ talosConfigPath homeDir @ '' dashboard''),
     echo rule]"

definition verifyCluster :: "string \<Rightarrow> command" where
  "verifyCluster homeDir =
     \<lparr>name = ''verify-cluster'',
      create = verifyCluster_create homeDir,
      delete = None,
      environment = [(''KUBECONFIG'', kubeconfigPath homeDir)],
      depends_on = [''apply-security-hardening'']\<rparr>"

text \<open>
  \<^verbatim>\<open>main\<close> returns the error of \<^verbatim>\<open>os.UserHomeDir\<close> before it registers anything;
  otherwise it registers the resources in this order and exports three values.
\<close>

datatype error = No_home string

record program =
  resources :: "command list"
  exports :: "(string \<times> string) list"

definition registered :: "string \<Rightarrow> command list" where
  "registered homeDir =
     [createTalosDir homeDir, createCluster homeDir, exportKubeconfig homeDir,
      waitForK8s homeDir, applySecurityHardening homeDir, verifyCluster homeDir]"

definition main :: "error + string \<Rightarrow> error + program" where
  "main home =
     (case home of
        Inl err \<Rightarrow> Inl err
      | Inr homeDir \<Rightarrow>
          Inr \<lparr>resources = registered homeDir,
               exports =
                 [(''clusterName'', clusterName),
                  (''kubeconfigPath'', kubeconfigPath homeDir),
                  (''talosconfigPath'', talosConfigPath homeDir)]\<rparr>)"

subsection \<open>The program with the Lima virtual machine\<close>

definition createDirs :: "string \<Rightarrow> command" where
  "createDirs homeDir =
     \<lparr>name = ''create-dirs'',
      create = run [''mkdir'', ''-p'', talosDir homeDir, ''~/.kube''],
      delete = None,
      environment = [],
      depends_on = []\<rparr>"

definition limaConfig :: "string list" where
  \<open>limaConfig = [
      ''# Lima VM for Talos Docker provisioner'',
      ''images:'',
      ''- location: "https://cloud-images.ubuntu.com/releases/24.04/release/ubuntu-24.04-server-cloudimg-arm64.img"'',
      ''  arch: "aarch64"'',
      ''- location: "https://cloud-images.ubuntu.com/releases/24.04/release/ubuntu-24.04-server-cloudimg-amd64.img"'',
      ''  arch: "x86_64"'',
      [],
      ''cpus: 4'',
      ''memory: "8GiB"'',
      ''disk: "100GiB"'',
      [],
      ''containerd:'',
      ''  system: false'',
      ''  user: false'',
      [],
      ''provision:'',
      ''- mode: system'',
      ''  script: |'',
      ''    #!/bin/bash'',
      ''    set -eux -o pipefail'',
      [],
      ''    # Install Docker'',
      ''    if ! command -v docker &> /dev/null; then'',
      ''      curl -fsSL https://get.docker.com | sh'',
      ''      systemctl enable docker'',
      ''      systemctl start docker'',
      ''      usermod -aG docker $LIMA_CIDATA_USER'',
      ''    fi'',
      [],
      ''portForwards:'',
      ''- guestSocket: "/var/run/docker.sock"'',
      ''  hostSocket: "{{.Dir}}/sock/docker.sock"'',
      []]\<close>

text \<open>
  The last, empty element of \<^verbatim>\<open>limaConfig\<close> is the line that the string's final newline
  and the newline of the format \<^verbatim>\<open>"cat <<'EOF' > %s\n%s\nEOF"\<close> leave before \<^verbatim>\<open>EOF\<close>.
\<close>

definition createLimaConfig :: command where
  "createLimaConfig =
     \<lparr>name = ''create-lima-config'',
      create = Run [\<lparr>pre = [], args = [[Lit ''cat'']],
                     redirs = [Here ''EOF'' limaConfig, Out_file [Lit limaConfigPath]]\<rparr>],
      delete = Some (run [''rm'', ''-f'', limaConfigPath]),
      environment = [],
      depends_on = []\<rparr>"

definition list_vms :: simple where
  "list_vms = cmd [''limactl'', ''list'', ''--format'', ''json''] []"

definition vm_entry :: string where
  \<open>vm_entry = ''"name":"'' @ vmName @ ''"''\<close>

definition docker_info :: "string \<Rightarrow> redir list \<Rightarrow> simple" where
  "docker_info homeDir rs =
     \<lparr>pre = [(''DOCKER_HOST'', [Lit (dockerHost homeDir)])],
      args = [[Lit ''docker''], [Lit ''info'']],
      redirs = rs\<rparr>"

definition docker_round :: "string \<Rightarrow> sh" where
  "docker_round homeDir = block [
     When (Run [docker_info homeDir [Out_null, Err_out]])
          (block [
             echo ''Docker is ready'',
             Run [docker_info homeDir [],
                  cmd [''grep'', ''-E'', ''Server Version|Operating System''] []],
             Break]),
     echo_w [Lit ''Waiting for Docker... ('', Var ''i'', Lit ''/30)''],
     run [''sleep'', ''5'']]"

definition docker_loop :: "string \<Rightarrow> sh" where
  "docker_loop homeDir = For ''i'' (run [''seq'', ''1'', ''30'']) (docker_round homeDir)"

definition ensure_vm :: sh where
  \<open>ensure_vm =
     If (Run [list_vms, cmd [''grep'', ''-q'', vm_entry] []])
        (block [
           echo (''VM '' @ vmName @ '' already exists, checking status...''),
           If (Run [list_vms, cmd [''grep'', ''-A'', ''5'', vm_entry] [],
                    cmd [''grep'', ''-q'', ''"status":"Running"''] []])
              (echo (''VM '' @ vmName @ '' is already running''))
              (block [
                 echo (''Starting existing VM '' @ vmName @ ''...''),
                 run [''limactl'', ''start'', vmName]])])
        (block [
           echo (''Creating Lima VM '' @ vmName @ ''...''),
           run [''limactl'', ''create'', ''--name='' @ vmName, limaConfigPath, ''--tty=false''],
           run [''limactl'', ''start'', vmName]])\<close>

definition limaVm_create :: "string \<Rightarrow> sh" where
  "limaVm_create homeDir = block [
     ensure_vm,
     echo ''Waiting for Docker to be ready...'',
     docker_loop homeDir]"

definition limaVm_delete :: sh where
  "limaVm_delete = block [
     echo (''Stopping and deleting Lima VM '' @ vmName @ ''...''),
     Or (Run [cmd [''limactl'', ''stop'', vmName] [Err_null]]) (run [''true'']),
     Or (Run [cmd [''limactl'', ''delete'', vmName, ''--force''] [Err_null]]) (run [''true'']),
     echo (''Lima VM '' @ vmName @ '' deleted'')]"

definition limaVm :: "string \<Rightarrow> command" where
  "limaVm homeDir =
     \<lparr>name = ''lima-vm'',
      create = limaVm_create homeDir,
      delete = Some limaVm_delete,
      environment = [],
      depends_on = [''create-dirs'', ''create-lima-config'']\<rparr>"

definition createCluster_vm_create :: sh where
  "createCluster_vm_create = block [
     When (Run [cmd [talosctl, ''cluster'', ''show'', ''--name'', clusterName] [Out_null, Err_out]])
          (block [
             echo (''Talos cluster '' @ quoted clusterName @ '' already exists''),
             Exit 0]),
     echo (''Creating Talos cluster '' @ quoted clusterName @ ''...''),
     run [talosctl, ''cluster'', ''create'',
          ''--name'', clusterName,
          ''--controlplanes'', ''1'',
          ''--workers'', ''2'',
          ''--wait'',
          ''--wait-timeout'', ''10m''],
     echo (''Talos cluster '' @ quoted clusterName @ '' created successfully'')]"

definition createCluster_vm_delete :: sh where
  "createCluster_vm_delete = block [
     echo (''Destroying Talos cluster '' @ quoted clusterName @ ''...''),
     Or (Run [cmd [talosctl, ''cluster'', ''destroy'', ''--name'', clusterName] [Err_null]])
        (run [''true'']),
     echo (''Talos cluster '' @ quoted clusterName @ '' destroyed'')]"

definition vm_environment :: "string \<Rightarrow> (string \<times> string) list" where
  "vm_environment homeDir =
     [(''TALOSCONFIG'', talosConfigPath homeDir),
      (''DOCKER_HOST'', dockerHost homeDir)]"

definition createCluster_vm :: "string \<Rightarrow> command" where
  "createCluster_vm homeDir =
     \<lparr>name = ''create-talos-cluster'',
      create = createCluster_vm_create,
      delete = Some createCluster_vm_delete,
      environment = vm_environment homeDir,
      depends_on = [''lima-vm'']\<rparr>"

definition exportKubeconfig_vm_create :: "string \<Rightarrow> sh" where
  "exportKubeconfig_vm_create homeDir = block [
     echo (''Exporting kubeconfig to '' @ kubeconfigPath homeDir @ ''...''),
     run [''sleep'', ''5''],
     run [talosctl, ''kubeconfig'', kubeconfigPath homeDir, ''--force''],
     If (Run [cmd [''kubectl'', ''--kubeconfig'', kubeconfigPath homeDir, ''get'', ''nodes'']
                  [Out_null, Err_out]])
        (block [
           echo ''Kubeconfig exported successfully'',
           run [''kubectl'', ''--kubeconfig'', kubeconfigPath homeDir, ''get'', ''nodes'']])
        (echo ''Warning: kubectl not able to connect yet, cluster may still be initializing'')]"

definition exportKubeconfig_vm :: "string \<Rightarrow> command" where
  "exportKubeconfig_vm homeDir =
     \<lparr>name = ''export-kubeconfig'',
      create = exportKubeconfig_vm_create homeDir,
      delete = Some (run [''rm'', ''-f'', kubeconfigPath homeDir]),
      environment = vm_environment homeDir,
      depends_on = [''create-talos-cluster'']\<rparr>"

definition applySecurityHardening_vm_create :: "string \<Rightarrow> sh" where
  "applySecurityHardening_vm_create homeDir = block [
     Export ''KUBECONFIG'' [Lit (kubeconfigPath homeDir)],
     echo ''Applying security hardening...'',
     label ''kube-system'' ''pod-security.kubernetes.io/enforce=privileged'',
     label ''kube-system'' ''pod-security.kubernetes.io/warn=baseline'',
     label ''default'' ''pod-security.kubernetes.io/enforce=restricted'',
     label ''default'' ''pod-security.kubernetes.io/warn=restricted'',
     apply_netpol,
     echo ''Security hardening applied'']"

definition applySecurityHardening_vm :: "string \<Rightarrow> command" where
  "applySecurityHardening_vm homeDir =
     \<lparr>name = ''apply-security-hardening'',
      create = applySecurityHardening_vm_create homeDir,
      delete = None,
      environment = [(''KUBECONFIG'', kubeconfigPath homeDir)],
      depends_on = [''wait-for-kubernetes'']\<rparr>"

definition verifyCluster_vm_create :: "string \<Rightarrow> sh" where
  "verifyCluster_vm_create homeDir = block [
     Export ''KUBECONFIG'' [Lit (kubeconfigPath homeDir)],
     echo rule,
     echo ''Talos Cluster Ready'',
     echo rule,
     echo [],
     echo (''Cluster: '' @ clusterName),
     echo (''Lima VM: '' @ vmName),
     echo (''Kubeconfig: '' @ kubeconfigPath homeDir),
     echo (''Talosconfig: '' @ talosConfigPath homeDir),
     echo [],
     echo ''Security Features (built into Talos):'',
     echo ''  - Immutable OS (no shell, no SSH)'',
     echo ''  - API-only management'',
     echo ''  - Encryption at rest for etcd'',
     echo ''  - Secure boot capable'',
     echo ''  - Minimal attack surface'',
     echo [],
     echo ''Applied Hardening:'',
     echo ''  - Pod Security Standards enforced'',
     echo ''  - Default-deny NetworkPolicies'',
     echo [],
     echo ''Nodes:'',
     run [''kubectl'', ''get'', ''nodes'', ''-o'', ''wide''],
     echo [],
     echo rule,
     echo ''Usage:'',
     echo (''  export KUBECONFIG='' @ kubeconfigPath homeDir),
     echo ''  kubectl get nodes'',
     echo ''  talosctl dashboard'',
     echo rule]"

definition verifyCluster_vm :: "string \<Rightarrow> command" where
  "verifyCluster_vm homeDir =
     \<lparr>name = ''verify-cluster'',
      create = verifyCluster_vm_create homeDir,
      delete = None,
      environment = [(''KUBECONFIG'', kubeconfigPath homeDir)],
      depends_on = [''apply-security-hardening'']\<rparr>"

text \<open>
  The wait step of this program is that of \<^verbatim>\<open>main.go\<close>, command for command.
\<close>

definition registered_vm :: "string \<Rightarrow> command list" where
  "registered_vm homeDir =
     [createDirs homeDir, createLimaConfig, limaVm homeDir, createCluster_vm homeDir,
      exportKubeconfig_vm homeDir, waitForK8s homeDir,
      applySecurityHardening_vm homeDir, verifyCluster_vm homeDir]"

definition main_vm :: "error + string \<Rightarrow> error + program" where
  "main_vm home =
     (case home of
        Inl err \<Rightarrow> Inl err
      | Inr homeDir \<Rightarrow>
          Inr \<lparr>resources = registered_vm homeDir,
               exports =
                 [(''clusterName'', clusterName),
                  (''vmName'', vmName),
                  (''kubeconfigPath'', kubeconfigPath homeDir),
                  (''talosconfigPath'', talosConfigPath homeDir),
                  (''dockerSocket'', dockerSocket homeDir)]\<rparr>)"

subsection \<open>The cluster step as text\<close>

text \<open>
  The create and delete scripts of \<^verbatim>\<open>create-talos-cluster\<close> as the bytes the two programs
  pass to \<^verbatim>\<open>pulumi.String\<close>: the raw string literal, line by line with its tabs, filled
  in by \<^verbatim>\<open>Sprintf\<close>.
\<close>

definition tabs :: "nat \<Rightarrow> string" where
  "tabs n = replicate n tabc"

definition createCluster_create_format :: string where
  \<open>createCluster_create_format = join_with [nl] [
     [],
     tabs 4 @ ''# Check if cluster already exists'',
     tabs 4 @ ''if /opt/homebrew/bin/talosctl cluster show --name %s >/dev/null 2>&1; then'',
     tabs 5 @ ''echo "Talos cluster '%s' already exists"'',
     tabs 5 @ ''exit 0'',
     tabs 4 @ ''fi'',
     [],
     tabs 4 @ ''echo "Creating Talos cluster '%s'..."'',
     [],
     tabs 4 @ ''# Create cluster with Docker provisioner'',
     tabs 4 @ ''# 1 control-plane + 2 workers for HA testing'',
     tabs 4 @ ''/opt/homebrew/bin/talosctl cluster create '' @ [bslash],
     tabs 5 @ ''--name %s '' @ [bslash],
     tabs 5 @ ''--controlplanes 1 '' @ [bslash],
     tabs 5 @ ''--workers 2 '' @ [bslash],
     tabs 5 @ ''--wait '' @ [bslash],
     tabs 5 @ ''--wait-timeout 10m'',
     [],
     tabs 4 @ ''echo "Talos cluster '%s' created successfully"'',
     tabs 3]\<close>

definition createCluster_create_text :: string where
  "createCluster_create_text =
     sprintf createCluster_create_format
       [clusterName, clusterName, clusterName, clusterName, clusterName]"

definition createCluster_delete_format :: string where
  \<open>createCluster_delete_format = join_with [nl] [
     [],
     tabs 4 @ ''echo "Destroying Talos cluster '%s'..."'',
     tabs 4 @ ''/opt/homebrew/bin/talosctl cluster destroy --name %s 2>/dev/null || true'',
     tabs 4 @ ''echo "Talos cluster '%s' destroyed"'',
     tabs 3]\<close>

definition createCluster_delete_text :: string where
  "createCluster_delete_text =
     sprintf createCluster_delete_format [clusterName, clusterName, clusterName]"

definition createCluster_vm_create_format :: string where
  \<open>createCluster_vm_create_format = join_with [nl] [
     [],
     tabs 4 @ ''# Check if cluster already exists'',
     tabs 4 @ ''if /opt/homebrew/bin/talosctl cluster show --name %s >/dev/null 2>&1; then'',
     tabs 5 @ ''echo "Talos cluster '%s' already exists"'',
     tabs 5 @ ''exit 0'',
     tabs 4 @ ''fi'',
     [],
     tabs 4 @ ''echo "Creating Talos cluster '%s'..."'',
     [],
     tabs 4 @ ''# Create cluster with Docker provisioner'',
     tabs 4 @ ''# 1 control-plane + 2 workers'',
     tabs 4 @ ''/opt/homebrew/bin/talosctl cluster create '' @ [bslash],
     tabs 5 @ ''--name %s '' @ [bslash],
     tabs 5 @ ''--controlplanes 1 '' @ [bslash],
     tabs 5 @ ''--workers 2 '' @ [bslash],
     tabs 5 @ ''--wait '' @ [bslash],
     tabs 5 @ ''--wait-timeout 10m'',
     [],
     tabs 4 @ ''echo "Talos cluster '%s' created successfully"'',
     tabs 3]\<close>

definition createCluster_vm_create_text :: string where
  "createCluster_vm_create_text =
     sprintf createCluster_vm_create_format
       [clusterName, clusterName, clusterName, clusterName, clusterName]"

definition createCluster_vm_delete_format :: string where
  \<open>createCluster_vm_delete_format = join_with [nl] [
     [],
     tabs 4 @ ''echo "Destroying Talos cluster '%s'..."'',
     tabs 4 @ ''/opt/homebrew/bin/talosctl cluster destroy --name %s 2>/dev/null || true'',
     tabs 4 @ ''echo "Talos cluster '%s' destroyed"'',
     tabs 3]\<close>

definition createCluster_vm_delete_text :: string where
  "createCluster_vm_delete_text =
     sprintf createCluster_vm_delete_format [clusterName, clusterName, clusterName]"

text \<open>A line the shell skips: blank, or a comment after the indentation.\<close>

definition skipped_line :: "string \<Rightarrow> bool" where
  "skipped_line l = (case dropWhile is_space l of [] \<Rightarrow> True | c # cs \<Rightarrow> c = CHR ''#'')"

definition code_lines :: "string \<Rightarrow> string list" where
  "code_lines t = filter (\<lambda>l. \<not> skipped_line l) (split_on nl t)"

section \<open>The step executor\<close>

text \<open>
  Modelled from the spec: the step executor (the infrastructure-as-code engine and its
  command provider), which the repository calls and does not contain.  The spec's
  contract: the steps run one at a time in the order they are declared; the create
  action of a step is executed only after all the steps it depends on have succeeded; a
  non-zero exit fails the step, and the steps that depend on a step that did not succeed
  are not run.
\<close>

datatype outcome = Succeeded | Failed | Skipped

record 'w progress =
  now :: 'w
  outcomes :: "(string \<times> outcome) list"
  ran :: "(string \<times> event list) list"

definition deps_ok :: "(string \<times> outcome) list \<Rightarrow> command \<Rightarrow> bool" where
  "deps_ok os c = list_all (\<lambda>d. map_of os d = Some Succeeded) (depends_on c)"

fun up :: "'w ext \<Rightarrow> command list \<Rightarrow> 'w progress \<Rightarrow> 'w progress" where
  "up x [] p = p"
| "up x (c # cs) p =
     (if deps_ok (outcomes p) c then
        (let s = run_script x (environment c) (create c) (now p)
         in up x cs
              \<lparr>now = world s,
               outcomes = outcomes p @ [(name c, if status s = 0 then Succeeded else Failed)],
               ran = ran p @ [(name c, xtrace s)]\<rparr>)
      else up x cs (p\<lparr>outcomes := outcomes p @ [(name c, Skipped)]\<rparr>))"

definition pulumi_up :: "'w ext \<Rightarrow> command list \<Rightarrow> 'w \<Rightarrow> 'w progress" where
  "pulumi_up x cs w = up x cs \<lparr>now = w, outcomes = [], ran = []\<rparr>"

section \<open>Observing a run\<close>

definition run_create :: "'w ext \<Rightarrow> command \<Rightarrow> 'w \<Rightarrow> 'w shell" where
  "run_create x c w = run_script x (environment c) (create c) w"

definition run_delete :: "'w ext \<Rightarrow> command \<Rightarrow> 'w \<Rightarrow> 'w shell option" where
  "run_delete x c w = map_option (\<lambda>d. run_script x (environment c) d w) (delete c)"

text \<open>How often a command was run, the status of its first run, and the last command run.\<close>

fun ran_as :: "(string list \<Rightarrow> bool) \<Rightarrow> event \<Rightarrow> bool" where
  "ran_as P (Exec c st) = P (argv c)"
| "ran_as P (Wrote f ls) = False"

definition times :: "(string list \<Rightarrow> bool) \<Rightarrow> event list \<Rightarrow> nat" where
  "times P t = length (filter (ran_as P) t)"

fun first_status :: "(string list \<Rightarrow> bool) \<Rightarrow> event list \<Rightarrow> nat option" where
  "first_status P [] = None"
| "first_status P (Exec c st # es) = (if P (argv c) then Some st else first_status P es)"
| "first_status P (Wrote f ls # es) = first_status P es"

fun last_exec :: "event list \<Rightarrow> (string list \<times> nat) option" where
  "last_exec [] = None"
| "last_exec [Exec c st] = Some (argv c, st)"
| "last_exec [Wrote f ls] = None"
| "last_exec (e # d # es) = last_exec (d # es)"

text \<open>The external commands of a trace in order, without \<^verbatim>\<open>echo\<close>.\<close>

fun commands :: "event list \<Rightarrow> string list list" where
  "commands [] = []"
| "commands (Exec c st # es) =
     (if hd (argv c) = ''echo'' then commands es else argv c # commands es)"
| "commands (Wrote f ls # es) = commands es"

definition sleep5 :: "string list \<Rightarrow> bool" where
  "sleep5 a = (a = [''sleep'', ''5''])"

definition tool :: "string \<Rightarrow> string list \<Rightarrow> bool" where
  "tool c a = (case a of [] \<Rightarrow> False | b # rest \<Rightarrow> b = c)"

definition subcommand :: "string list \<Rightarrow> string list \<Rightarrow> bool" where
  "subcommand p a = (take (length p) a = p)"

definition ready_count :: "string list \<Rightarrow> nat" where
  "ready_count ls = length (filter (\<lambda>l. contains l '' Ready '') ls)"

text \<open>The listings that \<^verbatim>\<open>kubectl get nodes\<close> piped into the two counters, in order.\<close>

fun listed :: "event list \<Rightarrow> string list list" where
  "listed [] = []"
| "listed (Exec c st # es) =
     (if argv c = [''grep'', ''-c'', '' Ready ''] \<or> argv c = [''wc'', ''-l'']
      then input c # listed es else listed es)"
| "listed (Wrote f ls # es) = listed es"

section \<open>The dependency graph\<close>

definition graph :: "command list \<Rightarrow> (string \<times> string list) list" where
  "graph cs = map (\<lambda>c. (name c, depends_on c)) cs"

text \<open>
  A strict chain, as the specification words it: the first step depends on nothing and
  every later step declares exactly the step before it.
\<close>

fun chain :: "(string \<times> string list) list \<Rightarrow> bool" where
  "chain (a # b # g) = (snd b = [fst a] \<and> chain (b # g))"
| "chain g = True"

definition strict_chain :: "(string \<times> string list) list \<Rightarrow> bool" where
  "strict_chain g = (case g of [] \<Rightarrow> True | a # r \<Rightarrow> snd a = [] \<and> chain g)"

text \<open>
  A resource can only name resources registered before it, so the steps a step needs,
  directly or through other steps, are collected in one pass in registration order.
  \<open>requires g a b\<close>: step \<open>a\<close> cannot run unless step \<open>b\<close> succeeded.  Two steps are
  independent when neither requires the other.
\<close>

fun ancestors :: "(string \<times> string list) list \<Rightarrow> (string \<times> string list) list \<Rightarrow> (string \<times> string list) list" where
  "ancestors [] acc = acc"
| "ancestors (e # g) acc =
     ancestors g
       (acc @ [(fst e, remdups (snd e @ concat (map (\<lambda>d. case map_of acc d of None \<Rightarrow> [] | Some a \<Rightarrow> a) (snd e))))])"

definition requires :: "(string \<times> string list) list \<Rightarrow> string \<Rightarrow> string \<Rightarrow> bool" where
  "requires g a b = (case map_of (ancestors g []) a of None \<Rightarrow> False | Some as \<Rightarrow> b \<in> set as)"

definition independent :: "(string \<times> string list) list \<Rightarrow> string \<Rightarrow> string \<Rightarrow> bool" where
  "independent g a b = (a \<noteq> b \<and> \<not> requires g a b \<and> \<not> requires g b a)"

fun later_pairs :: "string list \<Rightarrow> (string \<times> string) list" where
  "later_pairs [] = []"
| "later_pairs (a # as) = map (\<lambda>b. (a, b)) as @ later_pairs as"

definition independent_pairs :: "(string \<times> string list) list \<Rightarrow> (string \<times> string) list" where
  "independent_pairs g = filter (\<lambda>(a, b). independent g a b) (later_pairs (map fst g))"

text \<open>Commands the properties speak of.\<close>

definition listing :: "string list \<Rightarrow> bool" where
  "listing a = (a = [''kubectl'', ''get'', ''nodes'', ''--no-headers''])"

definition counting :: "string list \<Rightarrow> bool" where
  "counting a = (a = [''grep'', ''-c'', '' Ready ''])"

definition announces :: "string list \<Rightarrow> bool" where
  "announces a = (case a of [e, m] \<Rightarrow> e = ''echo'' \<and> starts_with m ''All '' | _ \<Rightarrow> False)"

definition docker_info_call :: "string list \<Rightarrow> bool" where
  "docker_info_call a = (a = [''docker'', ''info''])"

definition vm_probe :: "string list \<Rightarrow> bool" where
  "vm_probe a = (a = [''grep'', ''-q'', vm_entry])"

definition vm_creation :: "string list \<Rightarrow> bool" where
  "vm_creation a = subcommand [''limactl'', ''create''] a"

text \<open>
  The readiness condition in the specification's words, on the listings of one round
  after the other: the number of Ready nodes equals the total, and the total is not zero.
\<close>

fun verdicts :: "string list list \<Rightarrow> bool list" where
  "verdicts (l1 # l2 # ls) = (ready_count l1 = length l2 \<and> 0 < length l2) # verdicts ls"
| "verdicts ls = []"

text \<open>What an environment can answer to a tool: a status and the lines printed.\<close>

definition answers :: "'w ext \<Rightarrow> string \<Rightarrow> nat \<Rightarrow> string list \<Rightarrow> bool" where
  "answers x c st out = (\<exists>w cl w'. tool c (argv cl) \<and> x w cl = (st, out, w'))"

subsection \<open>Auxiliary notions\<close>

definition external :: "string \<Rightarrow> bool" where
  "external c = (c \<notin> set [''echo'', ''true'', ''['', ''cat'', ''seq'', ''grep'', ''wc'', ''tr''])"

definition ready_text :: "string list \<Rightarrow> string" where
  "ready_text ls = (if 0 < ready_count ls then dec (ready_count ls) else [CHR ''0'', nl, CHR ''0''])"

definition waiting_cmd :: "string list \<Rightarrow> bool" where
  "waiting_cmd a = (tool ''docker'' a \<or> tool ''echo'' a \<or> tool ''grep'' a \<or> tool ''sleep'' a \<or> tool ''seq'' a)"

subsection \<open>What a script can print\<close>

text \<open>The texts of the \<^verbatim>\<open>echo\<close> commands of a script, variables left out.\<close>

fun literal :: "word \<Rightarrow> string" where
  "literal [] = []"
| "literal (Lit s # w) = s @ literal w"
| "literal (Var v # w) = literal w"

definition echoed :: "simple \<Rightarrow> string list" where
  "echoed c = (case args c of [] \<Rightarrow> [] | a # as \<Rightarrow> if a = [Lit ''echo''] then map literal as else [])"

fun messages :: "sh \<Rightarrow> string list" where
  "messages (Run p) = concat (map echoed p)"
| "messages (Assign v c) = messages c"
| "messages (Export v w) = []"
| "messages (Or a b) = messages a @ messages b"
| "messages (And a b) = messages a @ messages b"
| "messages (Seq a b) = messages a @ messages b"
| "messages (If c t e) = messages c @ messages t @ messages e"
| "messages (When c t) = messages c @ messages t"
| "messages (For v g b) = messages g @ messages b"
| "messages Break = []"
| "messages (Exit n) = []"

definition warns :: "sh \<Rightarrow> bool" where
  "warns c = list_ex (\<lambda>m. contains m ''arning'' \<or> contains m ''WARN'') (messages c)"

subsection \<open>Environments for the examples\<close>

text \<open>
  A cluster that cannot be reached: every \<^verbatim>\<open>kubectl\<close> call fails and prints nothing;
  a Docker daemon that never comes up; everything else succeeds silently.
\<close>

definition kubectl_down :: "unit ext" where
  "kubectl_down w c = (if tool ''kubectl'' (argv c) then (1, [], w) else (0, [], w))"

definition docker_down :: "unit ext" where
  "docker_down w c = (if tool ''docker'' (argv c) then (1, [], w) else (0, [], w))"

subsection \<open>Commands of the other steps\<close>

definition cluster_probe :: "string list \<Rightarrow> bool" where
  "cluster_probe a = (a = [talosctl, ''cluster'', ''show'', ''--name'', clusterName])"

definition cluster_creation :: "string list \<Rightarrow> bool" where
  "cluster_creation a = subcommand [talosctl, ''cluster'', ''create''] a"

definition is_probe :: "string list \<Rightarrow> bool" where
  "is_probe a = (cluster_probe a \<or> a = [''limactl'', ''list'', ''--format'', ''json''])"

definition probes_first :: "event list \<Rightarrow> bool" where
  "probes_first t = (case commands t of [] \<Rightarrow> False | a # as \<Rightarrow> is_probe a)"

definition extraction :: "string list \<Rightarrow> bool" where
  "extraction a = subcommand [talosctl, ''kubeconfig''] a"

definition verification :: "string \<Rightarrow> string list \<Rightarrow> bool" where
  "verification homeDir a = (a = [''kubectl'', ''--kubeconfig'', kubeconfigPath homeDir, ''get'', ''nodes''])"

definition warning_line :: string where
  "warning_line = ''Warning: kubectl not able to connect yet, cluster may still be initializing''"

definition label_call :: "string list \<Rightarrow> bool" where
  "label_call a = subcommand [''kubectl'', ''label''] a"

text \<open>What a run handed to \<^verbatim>\<open>kubectl\<close>: the arguments and the standard input of each call.\<close>

fun submitted :: "event list \<Rightarrow> (string list \<times> string list) list" where
  "submitted [] = []"
| "submitted (Exec c st # es) =
     (if tool ''kubectl'' (argv c) then (argv c, input c) # submitted es else submitted es)"
| "submitted (Wrote f ls # es) = submitted es"

text \<open>
  More environments: one in which everything is already there (every command succeeds
  and the VM registry lists the machine), one in which \<^verbatim>\<open>rm\<close> fails, and one in which
  \<^verbatim>\<open>mkdir\<close> fails.
\<close>

definition present :: "unit ext" where
  \<open>present w c =
     (if argv c = [''limactl'', ''list'', ''--format'', ''json'']
      then (0, [''{"name":"talos-docker","status":"Running"}''], w)
      else (0, [], w))\<close>

definition rm_fails :: "unit ext" where
  "rm_fails w c = (if tool ''rm'' (argv c) then (1, [], w) else (0, [], w))"


definition absent :: "unit ext" where
  "absent w c = (if is_probe (argv c) then (1, [], w) else (0, [], w))"

text \<open>
  \<open>absent\<close> is the environment in which nothing is there yet: the probes fail and print
  nothing, every other command succeeds.
\<close>

subsection \<open>Steps, payloads and deletions\<close>

text \<open>The steps other than the cluster step and \<^verbatim>\<open>lima-vm\<close>, of both programs.\<close>

definition unprobed :: "string \<Rightarrow> command list" where
  "unprobed h =
     [createTalosDir h, exportKubeconfig h, waitForK8s h, applySecurityHardening h, verifyCluster h,
      createDirs h, createLimaConfig, exportKubeconfig_vm h, applySecurityHardening_vm h,
      verifyCluster_vm h]"

text \<open>A \<^verbatim>\<open>kubectl label\<close> call of the hardening step, as \<open>submitted\<close> records it.\<close>

definition labelling :: "string \<times> string \<Rightarrow> string list \<times> string list" where
  "labelling p = ([''kubectl'', ''label'', ''namespace'', fst p, snd p, ''--overwrite''], [])"

text \<open>
  The steps that declare a delete action, the exit status of a delete action, and the
  call of \<^verbatim>\<open>rm -f\<close> that two of them consist of.
\<close>

definition with_delete :: "command list \<Rightarrow> string list" where
  "with_delete cs = map name (filter (\<lambda>c. delete c \<noteq> None) cs)"

definition delete_status :: "'w ext \<Rightarrow> command \<Rightarrow> 'w \<Rightarrow> nat option" where
  "delete_status x c w = map_option status (run_delete x c w)"

definition rm_f :: "string \<Rightarrow> (string \<times> string) list \<Rightarrow> call" where
  "rm_f p env = \<lparr>argv = [''rm'', ''-f'', p], input = [], cenv = env\<rparr>"

text \<open>The lines in which two scripts differ, position by position.\<close>

definition differing_lines :: "string \<Rightarrow> string \<Rightarrow> (string \<times> string) list" where
  "differing_lines t u = filter (\<lambda>(a, b). a \<noteq> b) (zip (split_on nl t) (split_on nl u))"


section \<open>Properties\<close>

subsection \<open>Numerals, utilities and single commands\<close>

declare split_on.simps [simp del] contains.simps [simp del] starts_with.simps [simp del]
  fields_acc.simps [simp del] strip_trailing.simps [simp del] join_with.simps [simp del]
  undec_acc.simps [simp del]



lemma digit_cases:
  "n < 10 \<Longrightarrow> n \<in> {0, 1, 2, 3, 4, 5, 6, 7, 8, 9::nat}"
  by auto

lemma digit_val_digit: "n < 10 \<Longrightarrow> digit_val (digit n) = Some n"
  using digit_cases [of n] by (auto simp: digit_val_def digit_def)

lemma digit_not_space: "n < 10 \<Longrightarrow> digit n \<noteq> CHR '' '' \<and> digit n \<noteq> nl \<and> digit n \<noteq> tabc"
  using digit_cases [of n] by (auto simp: digit_def nl_def tabc_def)

lemma dec_nonempty: "dec n \<noteq> []"
  by (subst dec.simps) simp

lemma dec_0: "dec 0 = ''0''"
  by (simp add: dec.simps digit_def)

lemma undec_acc_append:
  "undec_acc a (s @ [c]) = (case undec_acc a s of None \<Rightarrow> None | Some m \<Rightarrow> (case digit_val c of None \<Rightarrow> None | Some d \<Rightarrow> Some (10 * m + d)))"
  by (induction s arbitrary: a) (auto simp: undec_acc.simps split: option.splits)

lemma undec_acc_dec: "undec_acc 0 (dec n) = Some n"
proof (induction n rule: dec.induct)
  case (1 n)
  show ?case
  proof (cases "n < 10")
    case True
    then show ?thesis by (subst dec.simps) (simp add: undec_acc.simps digit_val_digit)
  next
    case False
    then have "undec_acc 0 (dec (n div 10)) = Some (n div 10)" using 1 by simp
    with False show ?thesis
      by (subst dec.simps) (simp add: undec_acc_append digit_val_digit)
  qed
qed

lemma undec_dec: "undec (dec n) = Some n"
  by (simp add: undec_def dec_nonempty undec_acc_dec)

lemma dec_inj: "dec m = dec n \<Longrightarrow> m = n"
  by (metis undec_dec option.inject)

lemma dec_no_space: "filter (\<lambda>ch. ch \<noteq> CHR '' '') (dec n) = dec n"
proof (induction n rule: dec.induct)
  case (1 n)
  show ?case
  proof (cases "n < 10")
    case True
    then show ?thesis by (subst (1 2) dec.simps) (simp add: digit_not_space)
  next
    case False
    with 1 show ?thesis by (subst (1 2) dec.simps) (simp add: digit_not_space)
  qed
qed

lemma dec_no_nl: "nl \<notin> set (dec n)"
proof (induction n rule: dec.induct)
  case (1 n)
  show ?case
  proof (cases "n < 10")
    case True
    then show ?thesis using digit_not_space [of n] by (subst dec.simps) auto
  next
    case False
    with 1 show ?thesis using digit_not_space [of "n mod 10"] by (subst dec.simps) auto
  qed
qed


subsection \<open>Evaluating commands\<close>

lemma external_names [simp]:
  "external ''sleep''" "external ''kubectl''" "external talosctl" "external ''mkdir''"
  "external ''rm''" "external ''limactl''" "external ''docker''"
  by (simp_all add: external_def talosctl_def)

lemma utility_external: "external c \<Longrightarrow> utility (c # as) inp = None"
  by (simp add: utility_def external_def)

lemma utility_echo: "utility [''echo'', m] inp = Some (0, split_on nl m)"
  by (simp add: utility_def join_with.simps)

lemma utility_true: "utility [''true''] inp = Some (0, [])"
  by (simp add: utility_def)

lemma utility_cat: "utility [''cat''] inp = Some (0, inp)"
  by (simp add: utility_def)

lemma utility_grep_c:
  "utility [''grep'', ''-c'', '' Ready ''] inp =
     Some (if 0 < ready_count inp then 0 else 1, [dec (ready_count inp)])"
  by (simp add: utility_def plain_pattern_def ready_count_def bslash_def Let_def)

lemma utility_wc:
  "utility [''wc'', ''-l''] inp =
     Some (0, [replicate (8 - length (dec (length inp))) CHR '' '' @ dec (length inp)])"
  by (simp add: utility_def Let_def)

lemma utility_tr:
  "utility [''tr'', ''-d'', '' ''] inp = Some (0, map (filter (\<lambda>ch. ch \<noteq> CHR '' '')) inp)"
  by (simp add: utility_def)

lemma utility_test_eq:
  "utility [''['', a, ''='', b, '']''] inp = Some (if a = b then 0 else 1, [])"
  by (simp add: utility_def test_def)

lemma utility_test_gt:
  "utility [''['', a, ''-gt'', ''0'', '']''] inp =
     Some (case undec a of None \<Rightarrow> 2 | Some m \<Rightarrow> if 0 < m then 0 else 1, [])"
  by (simp add: utility_def test_def undec_def undec_acc.simps digit_val_def split: option.splits)

lemma expand_lit [simp]: "expand vs [Lit c] = c"
  by (simp add: expand_def)

lemma map_expand_lits [simp]: "map (expand vs \<circ> (\<lambda>s. [Lit s])) ws = ws"
  by (induction ws) simp_all

lemma call_env_simps [simp]:
  "call_env (s\<lparr>world := w\<rparr>) p = call_env s p"
  "call_env (s\<lparr>status := a\<rparr>) p = call_env s p"
  "call_env (s\<lparr>stdout := b\<rparr>) p = call_env s p"
  "call_env (s\<lparr>xtrace := c\<rparr>) p = call_env s p"
  "call_env (s\<lparr>flow := d\<rparr>) p = call_env s p"
  by (simp_all add: call_env_def)

lemma exec_external:
  "external c \<Longrightarrow> out_file rs = None \<Longrightarrow> heredoc rs = None \<Longrightarrow>
   exec x (cmd (c # as) rs) inp s =
     (case x (world s) \<lparr>argv = c # as, input = inp, cenv = call_env s []\<rparr> of
        (st, out, w) \<Rightarrow>
          (st, if Out_null \<in> set rs then [] else out,
           s\<lparr>world := w,
             xtrace := xtrace s @ [Exec \<lparr>argv = c # as, input = inp, cenv = call_env s []\<rparr> st]\<rparr>))"
  by (simp add: cmd_def exec_def utility_external Let_def split: prod.splits)

lemma exec_utility:
  "utility ws inp = Some (st, out) \<Longrightarrow>
   exec x (cmd ws []) inp s =
     (st, out, s\<lparr>xtrace := xtrace s @ [Exec \<lparr>argv = ws, input = inp, cenv = call_env s []\<rparr> st]\<rparr>)"
  by (simp add: cmd_def exec_def Let_def)

lemma eval_echo:
  "eval x (echo m) s =
     s\<lparr>status := 0, stdout := stdout s @ split_on nl m,
       xtrace := xtrace s @ [Exec \<lparr>argv = [''echo'', m], input = [], cenv = call_env s []\<rparr> 0]\<rparr>"
  by (simp add: echo_def exec_utility [OF utility_echo])

lemma eval_echo_w:
  "eval x (echo_w w) s =
     s\<lparr>status := 0, stdout := stdout s @ split_on nl (expand (vars s) w),
       xtrace := xtrace s @
         [Exec \<lparr>argv = [''echo'', expand (vars s) w], input = [], cenv = call_env s []\<rparr> 0]\<rparr>"
  by (simp add: echo_w_def exec_def utility_echo)

lemma eval_true:
  "eval x (run [''true'']) s =
     s\<lparr>status := 0,
       xtrace := xtrace s @ [Exec \<lparr>argv = [''true''], input = [], cenv = call_env s []\<rparr> 0]\<rparr>"
  by (simp add: run_def exec_utility [OF utility_true])

lemma eval_run_external:
  "external c \<Longrightarrow>
   eval x (run (c # as)) s =
     (case x (world s) \<lparr>argv = c # as, input = [], cenv = call_env s []\<rparr> of
        (st, out, w) \<Rightarrow>
          s\<lparr>world := w, status := st, stdout := stdout s @ out,
            xtrace := xtrace s @ [Exec \<lparr>argv = c # as, input = [], cenv = call_env s []\<rparr> st]\<rparr>)"
  by (simp add: run_def exec_external split: prod.splits)


lemma times_simps [simp]:
  "times P [] = 0"
  "times P (Exec c st # es) = (if P (argv c) then Suc (times P es) else times P es)"
  "times P (Wrote f ls # es) = times P es"
  "times P (t @ u) = times P t + times P u"
  by (simp_all add: times_def)

lemma listed_append [simp]: "listed (t @ u) = listed t @ listed u"
  by (induction t rule: listed.induct) simp_all

lemma last_exec_append [simp]: "u \<noteq> [] \<Longrightarrow> last_exec (t @ u) = last_exec u"
  by (induction t rule: last_exec.induct) (auto simp: neq_Nil_conv)


lemma last_exec_append_Some: "last_exec u = Some z \<Longrightarrow> last_exec (t @ u) = Some z"
  by (cases "u = []") simp_all

lemma last_exec_cons_Some: "last_exec u = Some z \<Longrightarrow> last_exec (c # u) = Some z"
  using last_exec_append_Some [of u z "[c]"] by simp

lemma eval_Seq_normal: "eval x a s = r \<Longrightarrow> flow r = Normal \<Longrightarrow> eval x (Seq a b) s = eval x b r"
  by simp

lemma eval_Seq_stop: "eval x a s = r \<Longrightarrow> flow r \<noteq> Normal \<Longrightarrow> eval x (Seq a b) s = r"
  by simp

lemma eval_When_yes:
  "eval x c s = r \<Longrightarrow> flow r = Normal \<Longrightarrow> status r = 0 \<Longrightarrow> eval x (When c t) s = eval x t r"
  by simp

lemma eval_When_no:
  "eval x c s = r \<Longrightarrow> flow r = Normal \<Longrightarrow> status r \<noteq> 0 \<Longrightarrow>
   eval x (When c t) s = r\<lparr>status := 0\<rparr>"
  by simp

lemma undec_literals: "undec ''1'' = Some 1" "undec ''60'' = Some 60" "undec ''30'' = Some 30"
  by (simp_all add: undec_def undec_acc.simps digit_val_def)

lemma utility_seq_60: "utility [''seq'', ''1'', ''60''] inp = Some (0, map dec [1..<Suc 60])"
  by (simp add: utility_def undec_literals del: upt_Suc)

lemma utility_seq_30: "utility [''seq'', ''1'', ''30''] inp = Some (0, map dec [1..<Suc 30])"
  by (simp add: utility_def undec_literals del: upt_Suc)

lemma items_60: "length (shell_fields (capture (map dec [1..<Suc 60]))) = 60"
  by code_simp

lemma items_30: "length (shell_fields (capture (map dec [1..<Suc 30]))) = 30"
  by code_simp

lemma start_simps [simp]:
  "world (start w env) = w" "vars (start w env) = env" "exported (start w env) = map fst env"
  "status (start w env) = 0" "flow (start w env) = Normal" "stdout (start w env) = []"
  "xtrace (start w env) = []"
  by (simp_all add: start_def)

lemma times_none: "list_all (ran_as Q) evs \<Longrightarrow> (\<And>a. Q a \<Longrightarrow> \<not> P a) \<Longrightarrow> times P evs = 0"
proof (induction evs)
  case Nil
  then show ?case by simp
next
  case (Cons e evs)
  then show ?case by (cases e) auto
qed

lemma commands_append [simp]: "commands (t @ u) = commands t @ commands u"
  by (induction t rule: commands.induct) simp_all

lemma first_status_append:
  "first_status P (t @ u) = (case first_status P t of None \<Rightarrow> first_status P u | Some st \<Rightarrow> Some st)"
  by (induction P t rule: first_status.induct) simp_all

lemma shell_word_home: "shell_word ''/Users/justin''"
  by code_simp

subsection \<open>One round of the node loop\<close>

lemma capture_dec: "capture [dec n] = dec n"
  by (simp add: capture_def strip_trailing.simps dec_nonempty join_with.simps)

lemma capture_00: "capture [''0'', ''0''] = [CHR ''0'', nl, CHR ''0'']"
  by (simp add: capture_def strip_trailing.simps join_with.simps)

lemma split_on_0: "split_on nl ''0'' = [''0'']"
  by (simp add: split_on.simps nl_def)

lemma count_ready_eval:
  "eval x count_ready s =
     (case x (world s) \<lparr>argv = [''kubectl'', ''get'', ''nodes'', ''--no-headers''], input = [],
                        cenv = call_env s []\<rparr> of
        (a, ls, w) \<Rightarrow>
     s\<lparr>world := w,
       xtrace := xtrace s @
         [Exec \<lparr>argv = [''kubectl'', ''get'', ''nodes'', ''--no-headers''], input = [],
                 cenv = call_env s []\<rparr> a,
          Exec \<lparr>argv = [''grep'', ''-c'', '' Ready ''], input = ls, cenv = call_env s []\<rparr>
               (if 0 < ready_count ls then 0 else 1)] @
         (if 0 < ready_count ls then []
          else [Exec \<lparr>argv = [''echo'', ''0''], input = [], cenv = call_env s []\<rparr> 0]),
       status := 0,
       vars := (''READY'', ready_text ls) # vars s\<rparr>)"
  by (simp add: count_ready_def get_nodes_def exec_external exec_utility [OF utility_grep_c]
      eval_echo ready_text_def capture_dec capture_00 split_on_0 dec_0 Let_def split: prod.splits)

lemma count_total_eval:
  "eval x count_total s =
     (case x (world s) \<lparr>argv = [''kubectl'', ''get'', ''nodes'', ''--no-headers''], input = [],
             cenv = call_env s []\<rparr> of
        (a, ls, w) \<Rightarrow>
     s\<lparr>world := w,
       xtrace := xtrace s @
         [Exec \<lparr>argv = [''kubectl'', ''get'', ''nodes'', ''--no-headers''], input = [],
                 cenv = call_env s []\<rparr> a,
          Exec \<lparr>argv = [''wc'', ''-l''], input = ls, cenv = call_env s []\<rparr> 0,
          Exec \<lparr>argv = [''tr'', ''-d'', '' ''],
                 input = [replicate (8 - length (dec (length ls))) CHR '' '' @ dec (length ls)],
                 cenv = call_env s []\<rparr> 0],
       status := 0,
       vars := (''TOTAL'', dec (length ls)) # vars s\<rparr>)"
  by (simp add: count_total_def get_nodes_def exec_external exec_utility [OF utility_wc]
      exec_utility [OF utility_tr] dec_no_space capture_dec Let_def split: prod.splits)

lemma ready_text_eq: "ready_text ls = dec n \<longleftrightarrow> 0 < ready_count ls \<and> ready_count ls = n"
proof (cases "0 < ready_count ls")
  case True
  then show ?thesis by (auto simp: ready_text_def dest: dec_inj)
next
  case False
  have "[CHR ''0'', nl, CHR ''0''] \<noteq> dec n"
    using dec_no_nl [of n] by (metis list.set_intros(1,2))
  with False show ?thesis by (simp add: ready_text_def)
qed

lemma all_ready_eval:
  "vars s = (''TOTAL'', dec n) # (''READY'', ready_text ls) # vs \<Longrightarrow> flow s = Normal \<Longrightarrow>
   eval x all_ready s =
     s\<lparr>status := (if 0 < ready_count ls \<and> ready_count ls = n then 0 else 1),
       xtrace := xtrace s @
         Exec \<lparr>argv = [''['', ready_text ls, ''='', dec n, '']''], input = [],
                cenv = call_env s []\<rparr> (if ready_text ls = dec n then 0 else 1) #
         (if ready_text ls = dec n
          then [Exec \<lparr>argv = [''['', dec n, ''-gt'', ''0'', '']''], input = [],
                       cenv = call_env s []\<rparr> (if 0 < n then 0 else 1)]
          else [])\<rparr>"
  by (auto simp add: all_ready_def exec_def utility_test_eq utility_test_gt expand_def lookup_def
      undec_dec ready_text_eq Let_def)

lemma announces_all: "announces [''echo'', ''All '' @ m]"
  by (simp add: announces_def starts_with.simps)

lemma announces_waiting: "\<not> announces [''echo'', ''Waiting for nodes... ('' @ m]"
  by (simp add: announces_def starts_with.simps)

lemma announces_not_echo: "c \<noteq> ''echo'' \<Longrightarrow> \<not> announces (c # as)"
  by (simp add: announces_def split: list.splits)

lemma answersI: "x w cl = (st, out, w') \<Longrightarrow> tool c (argv cl) \<Longrightarrow> answers x c st out"
  unfolding answers_def by blast

text \<open>What one round adds to the trace, and how it ends.\<close>

lemma nodes_round_summary:
  assumes "flow s = Normal"
  shows "\<exists>evs l1 l2 a1 a2.
           xtrace (eval x nodes_round s) = xtrace s @ evs \<and>
           listed evs = [l1, l2] \<and>
           answers x ''kubectl'' a1 l1 \<and> answers x ''kubectl'' a2 l2 \<and>
           times listing evs = 2 \<and> times counting evs = 1 \<and>
           (if ready_count l1 = length l2 \<and> 0 < length l2
            then flow (eval x nodes_round s) = Breaking \<and> times sleep5 evs = 0 \<and>
                 times announces evs = 1
            else flow (eval x nodes_round s) = Normal \<and> times sleep5 evs = 1 \<and>
                 times announces evs = 0 \<and>
                 last_exec evs = Some ([''sleep'', ''5''], status (eval x nodes_round s)))"
proof -
  obtain a1 l1 w1 where r1:
    "x (world s) \<lparr>argv = [''kubectl'', ''get'', ''nodes'', ''--no-headers''], input = [],
                   cenv = call_env s []\<rparr> = (a1, l1, w1)"
    by (metis prod_cases3)
  have k1: "answers x ''kubectl'' a1 l1"
    by (rule answersI [of x, OF r1]) (simp add: tool_def)
  define s1 where "s1 = eval x count_ready s"
  have s1: "\<exists>e. xtrace s1 = xtrace s @ e \<and> listed e = [l1] \<and> times sleep5 e = 0
      \<and> times listing e = 1 \<and> times counting e = 1 \<and> times announces e = 0"
    and v1: "vars s1 = (''READY'', ready_text l1) # vars s" and f1: "flow s1 = Normal"
    by (simp_all add: s1_def count_ready_eval r1 assms sleep5_def listing_def counting_def
        announces_def starts_with.simps)
  obtain a2 l2 w2 where r2:
    "x (world s1) \<lparr>argv = [''kubectl'', ''get'', ''nodes'', ''--no-headers''], input = [],
                   cenv = call_env s1 []\<rparr> = (a2, l2, w2)"
    by (metis prod_cases3)
  have k2: "answers x ''kubectl'' a2 l2"
    by (rule answersI [of x, OF r2]) (simp add: tool_def)
  define s2 where "s2 = eval x count_total s1"
  have s2: "\<exists>e. xtrace s2 = xtrace s1 @ e \<and> listed e = [l2] \<and> times sleep5 e = 0
      \<and> times listing e = 1 \<and> times counting e = 0 \<and> times announces e = 0"
    and v2: "vars s2 = (''TOTAL'', dec (length l2)) # (''READY'', ready_text l1) # vars s"
    and f2: "flow s2 = Normal"
    by (simp_all add: s2_def count_total_eval r2 v1 f1 sleep5_def listing_def counting_def
        announces_def)
  define s3 where "s3 = eval x all_ready s2"
  have s3: "\<exists>e. xtrace s3 = xtrace s2 @ e \<and> listed e = [] \<and> times sleep5 e = 0
      \<and> times listing e = 0 \<and> times counting e = 0 \<and> times announces e = 0"
    and f3: "flow s3 = Normal"
    and st3: "status s3 = (if 0 < ready_count l1 \<and> ready_count l1 = length l2 then 0 else 1)"
    and v3: "vars s3 = vars s2"
    by (simp_all add: s3_def all_ready_eval [OF v2 f2] f2 sleep5_def listing_def counting_def
        announces_def)
  have head: "eval x nodes_round s =
      eval x (Seq (When all_ready
                     (block [echo_w [Lit ''All '', Var ''TOTAL'', Lit '' nodes are ready''], Break]))
                  (Seq (echo_w [Lit ''Waiting for nodes... ('', Var ''READY'', Lit ''/'',
                                Var ''TOTAL'', Lit '' ready)''])
                       (run [''sleep'', ''5'']))) s2"
    unfolding nodes_round_def block.simps
    by (simp only: eval_Seq_normal [OF s1_def [symmetric] f1] eval_Seq_normal [OF s2_def [symmetric] f2])
  from s1 s2 s3 obtain e where e: "xtrace s3 = xtrace s @ e" "listed e = [l1, l2]"
      "times sleep5 e = 0" "times listing e = 2" "times counting e = 1" "times announces e = 0"
    by auto
  have m1: "expand (vars s3) [Lit ''All '', Var ''TOTAL'', Lit '' nodes are ready''] =
      ''All '' @ dec (length l2) @ '' nodes are ready''"
    and m2: "expand (vars s3) [Lit ''Waiting for nodes... ('', Var ''READY'', Lit ''/'',
                                Var ''TOTAL'', Lit '' ready)''] =
      ''Waiting for nodes... ('' @ ready_text l1 @ ''/'' @ dec (length l2) @ '' ready)''"
    by (simp_all add: v3 v2 expand_def lookup_def)
  show ?thesis
  proof (cases "ready_count l1 = length l2 \<and> 0 < length l2")
    case True
    then have z: "status s3 = 0" by (simp add: st3)
    have res: "eval x nodes_round s =
        (eval x (echo_w [Lit ''All '', Var ''TOTAL'', Lit '' nodes are ready'']) s3)
          \<lparr>flow := Breaking, status := 0\<rparr>"
      unfolding head
      by (simp add: eval_When_yes [OF s3_def [symmetric] f3 z] s3_def [symmetric] f3 z
          eval_echo_w Let_def)
    show ?thesis using True k1 k2
      by (rule_tac x = "e @ [Exec \<lparr>argv = [''echo'', ''All '' @ dec (length l2) @ '' nodes are ready''],
            input = [], cenv = call_env s3 []\<rparr> 0]" in exI,
          rule_tac x = l1 in exI, rule_tac x = l2 in exI,
          rule_tac x = a1 in exI, rule_tac x = a2 in exI)
         (simp add: res e eval_echo_w m1 sleep5_def listing_def counting_def
            announces_all [simplified])
  next
    case False
    then have z: "status s3 \<noteq> 0" by (auto simp add: st3)
    obtain a3 l3 w3 where r3:
      "x (world s3) \<lparr>argv = [''sleep'', ''5''], input = [], cenv = call_env s3 []\<rparr> = (a3, l3, w3)"
      by (metis prod_cases3)
    have res: "eval x nodes_round s =
        eval x (Seq (echo_w [Lit ''Waiting for nodes... ('', Var ''READY'', Lit ''/'',
                                Var ''TOTAL'', Lit '' ready)''])
                       (run [''sleep'', ''5''])) (s3\<lparr>status := 0\<rparr>)"
      unfolding head
      by (simp add: s3_def [symmetric] f3 z Let_def)
    show ?thesis using False k1 k2
      by (rule_tac x = "e @ [Exec \<lparr>argv = [''echo'',
              ''Waiting for nodes... ('' @ ready_text l1 @ ''/'' @ dec (length l2) @ '' ready)''],
            input = [], cenv = call_env s3 []\<rparr> 0,
            Exec \<lparr>argv = [''sleep'', ''5''], input = [], cenv = call_env s3 []\<rparr> a3]" in exI,
          rule_tac x = l1 in exI, rule_tac x = l2 in exI,
          rule_tac x = a1 in exI, rule_tac x = a2 in exI)
         (simp add: res e r3 eval_echo_w eval_run_external m2 sleep5_def listing_def
            counting_def announces_waiting [simplified] announces_not_echo f3 Let_def)
  qed
qed


lemma nodes_rounds_summary:
  assumes "flow s = Normal"
  shows "\<exists>evs k.
           xtrace (iterate x v is nodes_round s) = xtrace s @ evs \<and>
           flow (iterate x v is nodes_round s) = Normal \<and>
           times sleep5 evs = k \<and>
           times listing evs = length (listed evs) \<and>
           2 * times counting evs = length (listed evs) \<and>
           list_all (\<lambda>l. \<exists>a. answers x ''kubectl'' a l) (listed evs) \<and>
           (if k < length is
            then verdicts (listed evs) = replicate k False @ [True] \<and> times announces evs = 1
            else k = length is \<and> verdicts (listed evs) = replicate k False \<and>
                 times announces evs = 0 \<and>
                 (is \<noteq> [] \<longrightarrow>
                  last_exec evs = Some ([''sleep'', ''5''], status (iterate x v is nodes_round s))))"
  using assms
proof (induction "is" arbitrary: s)
  case Nil
  then show ?case by simp
next
  case (Cons i "is")
  let ?s = "s\<lparr>vars := (v, i) # vars s\<rparr>"
  let ?r = "eval x nodes_round ?s"
  have fs: "flow ?s = Normal" using Cons.prems by simp
  from nodes_round_summary [OF fs, of x]
  obtain e l1 l2 a1 a2 where e: "xtrace ?r = xtrace s @ e" "listed e = [l1, l2]"
      "answers x ''kubectl'' a1 l1" "answers x ''kubectl'' a2 l2"
      "times listing e = 2" "times counting e = 1"
      "if ready_count l1 = length l2 \<and> 0 < length l2
       then flow ?r = Breaking \<and> times sleep5 e = 0 \<and> times announces e = 1
       else flow ?r = Normal \<and> times sleep5 e = 1 \<and> times announces e = 0 \<and>
            last_exec e = Some ([''sleep'', ''5''], status ?r)"
    by auto
  show ?case
  proof (cases "ready_count l1 = length l2 \<and> 0 < length l2")
    case True
    with e have "flow ?r = Breaking" "times sleep5 e = 0" "times announces e = 1" by auto
    then show ?thesis using e True
      by (rule_tac x = e in exI, rule_tac x = 0 in exI) auto
  next
    case False
    with e have n: "flow ?r = Normal" "times sleep5 e = 1" "times announces e = 0"
      "last_exec e = Some ([''sleep'', ''5''], status ?r)" by auto
    from Cons.IH [OF n(1)]
    obtain e' k where e': "xtrace (iterate x v is nodes_round ?r) = xtrace ?r @ e'"
      "flow (iterate x v is nodes_round ?r) = Normal"
      "times sleep5 e' = k"
      "times listing e' = length (listed e')"
      "2 * times counting e' = length (listed e')"
      "list_all (\<lambda>l. \<exists>a. answers x ''kubectl'' a l) (listed e')"
      "if k < length is
            then verdicts (listed e') = replicate k False @ [True] \<and> times announces e' = 1
            else k = length is \<and> verdicts (listed e') = replicate k False \<and>
                 times announces e' = 0 \<and>
                 (is \<noteq> [] \<longrightarrow>
                  last_exec e' = Some ([''sleep'', ''5''], status (iterate x v is nodes_round ?r)))"
      by auto
    have it: "iterate x v (i # is) nodes_round s = iterate x v is nodes_round ?r"
      using n(1) by simp
    show ?thesis
    proof (cases "is = []")
      case True
      then show ?thesis using e n False it
        by (rule_tac x = e in exI, rule_tac x = 1 in exI) auto
    next
      case ne: False
      show ?thesis unfolding it using e e' n False ne
        by (rule_tac x = "e @ e'" in exI, rule_tac x = "Suc k" in exI)
           (auto simp: last_exec_append_Some split: if_splits)
    qed
  qed
qed


lemma length_verdicts: "length (verdicts ls) = length ls div 2"
  by (induction ls rule: verdicts.induct) simp_all

lemma nodes_loop_summary:
  assumes "flow s = Normal"
  shows "\<exists>evs k.
           xtrace (eval x nodes_loop s) = xtrace s @ evs \<and>
           flow (eval x nodes_loop s) = Normal \<and>
           take 1 (commands evs) = [[''seq'', ''1'', ''60'']] \<and>
           times sleep5 evs = k \<and>
           times listing evs = length (listed evs) \<and>
           2 * times counting evs = length (listed evs) \<and>
           list_all (\<lambda>l. \<exists>a. answers x ''kubectl'' a l) (listed evs) \<and>
           (if k < 60
            then verdicts (listed evs) = replicate k False @ [True] \<and> times announces evs = 1
            else k = 60 \<and> verdicts (listed evs) = replicate k False \<and>
                 times announces evs = 0 \<and>
                 last_exec evs = Some ([''sleep'', ''5''], status (eval x nodes_loop s)))"
proof -
  let ?s = "s\<lparr>xtrace := xtrace s @
              [Exec \<lparr>argv = [''seq'', ''1'', ''60''], input = [], cenv = call_env s []\<rparr> 0],
            status := 0\<rparr>"
  define items where "items = shell_fields (capture (map dec [1..<Suc 60]))"
  have len: "length items = 60" unfolding items_def by (rule items_60)
  have ev: "eval x nodes_loop s = iterate x ''i'' items nodes_round ?s"
    unfolding items_def
    by (simp add: nodes_loop_def run_def exec_utility [OF utility_seq_60] Let_def del: upt_Suc)
  have f: "flow ?s = Normal" using assms by simp
  have ne: "items \<noteq> []" using len by auto
  from nodes_rounds_summary [OF f, of x "''i''" items]
  obtain e k where e: "xtrace (iterate x ''i'' items nodes_round ?s) = xtrace ?s @ e"
      "flow (iterate x ''i'' items nodes_round ?s) = Normal"
      "times sleep5 e = k"
      "times listing e = length (listed e)"
      "2 * times counting e = length (listed e)"
      "list_all (\<lambda>l. \<exists>a. answers x ''kubectl'' a l) (listed e)"
      "if k < length items
       then verdicts (listed e) = replicate k False @ [True] \<and> times announces e = 1
       else k = length items \<and> verdicts (listed e) = replicate k False \<and>
            times announces e = 0 \<and>
            (items \<noteq> [] \<longrightarrow>
             last_exec e = Some ([''sleep'', ''5''], status (iterate x ''i'' items nodes_round ?s)))"
    by blast
  show ?thesis
    unfolding ev using e ne
    by (rule_tac x = "Exec \<lparr>argv = [''seq'', ''1'', ''60''], input = [], cenv = call_env s []\<rparr> 0 # e" in exI,
        rule_tac x = k in exI)
       (auto simp: len sleep5_def listing_def counting_def announces_not_echo
          last_exec_cons_Some split: if_splits)
qed

lemma wait_tail:
  assumes "flow s = Normal"
  shows "\<exists>evs out. xtrace (eval x (block [echo ''Waiting for system pods...'', wait_pods,
                   echo ''Kubernetes is ready'',
                   run [''kubectl'', ''get'', ''nodes'', ''-o'', ''wide'']]) s) = xtrace s @ evs \<and>
           times sleep5 evs = 0 \<and> listed evs = [] \<and>
           times listing evs = 0 \<and> times counting evs = 0 \<and> times announces evs = 0 \<and>
           flow (eval x (block [echo ''Waiting for system pods...'', wait_pods,
                   echo ''Kubernetes is ready'',
                   run [''kubectl'', ''get'', ''nodes'', ''-o'', ''wide'']]) s) = Normal \<and>
           last_exec evs = Some ([''kubectl'', ''get'', ''nodes'', ''-o'', ''wide''],
             status (eval x (block [echo ''Waiting for system pods...'', wait_pods,
                   echo ''Kubernetes is ready'',
                   run [''kubectl'', ''get'', ''nodes'', ''-o'', ''wide'']]) s)) \<and>
           answers x ''kubectl'' (status (eval x (block [echo ''Waiting for system pods...'', wait_pods,
                   echo ''Kubernetes is ready'',
                   run [''kubectl'', ''get'', ''nodes'', ''-o'', ''wide'']]) s)) out"
proof -
  let ?c = "block [echo ''Waiting for system pods...'', wait_pods,
                   echo ''Kubernetes is ready'',
                   run [''kubectl'', ''get'', ''nodes'', ''-o'', ''wide'']]"
  obtain a1 o1 w1 where r1:
    "x (world s) \<lparr>argv = [''kubectl'', ''wait'', ''--for=condition=Ready'', ''pods'', ''--all'', ''-n'',
                   ''kube-system'', ''--timeout=300s''], input = [], cenv = call_env s []\<rparr> = (a1, o1, w1)"
    by (metis prod_cases3)
  obtain a2 o2 w2 where r2:
    "x w1 \<lparr>argv = [''kubectl'', ''get'', ''nodes'', ''-o'', ''wide''], input = [],
            cenv = call_env s []\<rparr> = (a2, o2, w2)"
    by (metis prod_cases3)
  have k: "answers x ''kubectl'' a2 o2"
    by (rule answersI [of x, OF r2]) (simp add: tool_def)
  have st: "status (eval x ?c s) = a2"
    and tr: "xtrace (eval x ?c s) = xtrace s @ drop (length (xtrace s)) (xtrace (eval x ?c s))"
    and fl: "flow (eval x ?c s) = Normal"
    using assms
    by (simp_all add: wait_pods_def eval_echo exec_external eval_true eval_run_external r1 r2 Let_def)
  show ?thesis
    using assms k
    by (rule_tac x = "drop (length (xtrace s)) (xtrace (eval x ?c s))" in exI, rule_tac x = o2 in exI)
       (simp add: wait_pods_def eval_echo exec_external eval_true eval_run_external r1 r2 Let_def
          sleep5_def listing_def counting_def announces_def starts_with.simps)
qed

lemma wait_summary:
  "\<exists>k out. flow (run_create x (waitForK8s h) w) = Normal \<and>
           take 1 (commands (xtrace (run_create x (waitForK8s h) w))) = [[''seq'', ''1'', ''60'']] \<and>
           times sleep5 (xtrace (run_create x (waitForK8s h) w)) = k \<and>
           times listing (xtrace (run_create x (waitForK8s h) w)) =
             length (listed (xtrace (run_create x (waitForK8s h) w))) \<and>
           2 * times counting (xtrace (run_create x (waitForK8s h) w)) =
             length (listed (xtrace (run_create x (waitForK8s h) w))) \<and>
           list_all (\<lambda>l. \<exists>a. answers x ''kubectl'' a l) (listed (xtrace (run_create x (waitForK8s h) w))) \<and>
           (if k < 60
            then verdicts (listed (xtrace (run_create x (waitForK8s h) w))) = replicate k False @ [True] \<and>
                 times announces (xtrace (run_create x (waitForK8s h) w)) = 1
            else k = 60 \<and> verdicts (listed (xtrace (run_create x (waitForK8s h) w))) = replicate k False \<and>
                 times announces (xtrace (run_create x (waitForK8s h) w)) = 0) \<and>
           last_exec (xtrace (run_create x (waitForK8s h) w)) =
             Some ([''kubectl'', ''get'', ''nodes'', ''-o'', ''wide''],
                   status (run_create x (waitForK8s h) w)) \<and>
           answers x ''kubectl'' (status (run_create x (waitForK8s h) w)) out"
proof -
  let ?tail = "block [echo ''Waiting for system pods...'', wait_pods,
                   echo ''Kubernetes is ready'',
                   run [''kubectl'', ''get'', ''nodes'', ''-o'', ''wide'']]"
  define s2 where "s2 = eval x (echo ''Waiting for Kubernetes nodes to be ready...'')
     (eval x (Export ''KUBECONFIG'' [Lit (kubeconfigPath h)])
        (start w [(''KUBECONFIG'', kubeconfigPath h)]))"
  have f2: "flow s2 = Normal"
    and t2: "times P (xtrace s2) = (if P [''echo'', ''Waiting for Kubernetes nodes to be ready...''] then 1 else 0)"
    and l2: "listed (xtrace s2) = []" and c2: "commands (xtrace s2) = []" for P
    by (simp_all add: s2_def eval_echo)
  define s3 where "s3 = eval x nodes_loop s2"
  from nodes_loop_summary [OF f2, of x]
  obtain e k where e: "xtrace s3 = xtrace s2 @ e"
      "flow s3 = Normal"
      "take 1 (commands e) = [[''seq'', ''1'', ''60'']]"
      "times sleep5 e = k"
      "times listing e = length (listed e)"
      "2 * times counting e = length (listed e)"
      "list_all (\<lambda>l. \<exists>a. answers x ''kubectl'' a l) (listed e)"
      "if k < 60
            then verdicts (listed e) = replicate k False @ [True] \<and> times announces e = 1
            else k = 60 \<and> verdicts (listed e) = replicate k False \<and> times announces e = 0 \<and>
                 last_exec e = Some ([''sleep'', ''5''], status s3)"
    unfolding s3_def by blast
  have run: "run_create x (waitForK8s h) w = eval x ?tail s3"
    using e(2) unfolding s3_def s2_def
    by (simp add: run_create_def run_script_def waitForK8s_def waitForK8s_create_def Let_def eval_echo)
  from wait_tail [OF e(2), of x]
  obtain e' out where e': "xtrace (eval x ?tail s3) = xtrace s3 @ e'"
      "times sleep5 e' = 0" "listed e' = []"
      "times listing e' = 0"
      "times counting e' = 0" "times announces e' = 0"
      "flow (eval x ?tail s3) = Normal"
      "last_exec e' = Some ([''kubectl'', ''get'', ''nodes'', ''-o'', ''wide''], status (eval x ?tail s3))"
      "answers x ''kubectl'' (status (eval x ?tail s3)) out"
    by blast
  have c1: "Suc 0 \<le> length (commands e)" using e(3) by (cases "commands e") auto
  show ?thesis
    unfolding run using e e' c1
    by (rule_tac x = k in exI, rule_tac x = out in exI)
       (auto simp: t2 l2 c2 sleep5_def listing_def counting_def announces_def starts_with.simps
          last_exec_append_Some split: if_splits)
qed

subsection \<open>The node loop\<close>

lemma kubectl_down_answers: "answers kubectl_down ''kubectl'' a l \<Longrightarrow> a = 1 \<and> l = []"
  by (auto simp: answers_def kubectl_down_def)

lemma docker_down_answers: "answers docker_down ''docker'' a l \<Longrightarrow> a = 1"
  by (auto simp: answers_def docker_down_def)

lemma verdicts_of_empty: "list_all (\<lambda>l. l = []) ls \<Longrightarrow> True \<notin> set (verdicts ls)"
  by (induction ls rule: verdicts.induct) auto

lemma wait_exhausted_when_down:
  "times sleep5 (xtrace (run_create kubectl_down (waitForK8s h) ())) = 60 \<and>
   status (run_create kubectl_down (waitForK8s h) ()) = 1"
proof -
  let ?r = "run_create kubectl_down (waitForK8s h) ()"
  from wait_summary [of kubectl_down h "()"]
  obtain k out where s:
    "times sleep5 (xtrace ?r) = k"
    "list_all (\<lambda>l. \<exists>a. answers kubectl_down ''kubectl'' a l) (listed (xtrace ?r))"
    "if k < 60 then verdicts (listed (xtrace ?r)) = replicate k False @ [True] \<and>
                 times announces (xtrace ?r) = 1
     else k = 60 \<and> verdicts (listed (xtrace ?r)) = replicate k False \<and>
                 times announces (xtrace ?r) = 0"
    "answers kubectl_down ''kubectl'' (status ?r) out"
    by blast
  have "list_all (\<lambda>l. l = []) (listed (xtrace ?r))"
    using s(2) by (auto simp: list_all_iff dest: kubectl_down_answers)
  then have "True \<notin> set (verdicts (listed (xtrace ?r)))" by (rule verdicts_of_empty)
  with s(3) have "k = 60" by (auto split: if_splits)
  with s(1) kubectl_down_answers [OF s(4)] show ?thesis by simp
qed

text \<open>
  C9: the listings of the trace are what \<^verbatim>\<open>kubectl get nodes --no-headers\<close> printed, one
  call for each, and the loop stops early exactly at the first round in which the number
  of Ready nodes among them equals the total and the total is not zero.  A round that goes
  on sleeps once: with \<open>k\<close> sleeps in the trace, \<open>k < 60\<close> says that round \<open>k + 1\<close> broke out,
  and then the condition failed in the \<open>k\<close> rounds before and held in that round, where the
  script announced it; with \<open>k = 60\<close> the condition failed in all sixty rounds.  When every
  listing is empty the loop runs its sixty rounds and never announces that the nodes are
  ready.  The home directory is a shell word.
\<close>

theorem node_loop_breaks_only_when_all_ready:
  assumes "shell_word h"
  shows "(let t = xtrace (run_create x (waitForK8s h) w); k = times sleep5 t
    in times listing t = length (listed t) \<and>
       list_all (\<lambda>l. \<exists>a. answers x ''kubectl'' a l) (listed t) \<and>
       (if k < 60
        then verdicts (listed t) = replicate k False @ [True] \<and> times announces t = 1
        else k = 60 \<and> verdicts (listed t) = replicate 60 False \<and> times announces t = 0) \<and>
       length (listed t) = 2 * times counting t \<and>
       (list_all (\<lambda>l. l = []) (listed t) \<longrightarrow> k = 60 \<and> times announces t = 0)) \<and>
   verdicts [l1, []] = [False] \<and> verdicts [[], l2] = [False]"
proof -
  let ?t = "xtrace (run_create x (waitForK8s h) w)"
  from wait_summary [of x h w]
  have a: "times listing ?t = length (listed ?t)"
    and b: "2 * times counting ?t = length (listed ?t)"
    and c: "list_all (\<lambda>l. \<exists>a. answers x ''kubectl'' a l) (listed ?t)"
    and d: "if times sleep5 ?t < 60
            then verdicts (listed ?t) = replicate (times sleep5 ?t) False @ [True] \<and>
                 times announces ?t = 1
            else times sleep5 ?t = 60 \<and> verdicts (listed ?t) = replicate (times sleep5 ?t) False \<and>
                 times announces ?t = 0"
    by auto
  have e: "list_all (\<lambda>l. l = []) (listed ?t) \<longrightarrow> times sleep5 ?t = 60 \<and> times announces ?t = 0"
  proof
    assume "list_all (\<lambda>l. l = []) (listed ?t)"
    then have "True \<notin> set (verdicts (listed ?t))" by (rule verdicts_of_empty)
    with d show "times sleep5 ?t = 60 \<and> times announces ?t = 0" by (auto split: if_splits)
  qed
  from a b c d e show ?thesis
    by (auto simp: Let_def ready_count_def split: if_splits)
qed

text \<open>
  With a cluster that cannot be reached every listing is empty, and the loop runs sixty
  rounds without announcing that the nodes are ready.
\<close>

theorem node_loop_breaks_only_when_all_ready_witness:
  "shell_word ''/Users/justin'' \<and>
   list_all (\<lambda>l. l = []) (listed (xtrace (run_create kubectl_down (waitForK8s ''/Users/justin'') ()))) \<and>
   times listing (xtrace (run_create kubectl_down (waitForK8s ''/Users/justin'') ())) = 120 \<and>
   times sleep5 (xtrace (run_create kubectl_down (waitForK8s ''/Users/justin'') ())) = 60 \<and>
   times announces (xtrace (run_create kubectl_down (waitForK8s ''/Users/justin'') ())) = 0"
proof -
  let ?t = "xtrace (run_create kubectl_down (waitForK8s ''/Users/justin'') ())"
  from node_loop_breaks_only_when_all_ready [OF shell_word_home, of kubectl_down "()"]
  have a: "times listing ?t = length (listed ?t)"
    and b: "list_all (\<lambda>l. \<exists>a. answers kubectl_down ''kubectl'' a l) (listed ?t)"
    and c: "length (listed ?t) = 2 * times counting ?t"
    and d: "if times sleep5 ?t < 60
        then verdicts (listed ?t) = replicate (times sleep5 ?t) False @ [True] \<and> times announces ?t = 1
        else times sleep5 ?t = 60 \<and> verdicts (listed ?t) = replicate 60 False \<and> times announces ?t = 0"
    and e: "list_all (\<lambda>l. l = []) (listed ?t) \<longrightarrow> times sleep5 ?t = 60 \<and> times announces ?t = 0"
    by (simp_all add: Let_def)
  have f: "list_all (\<lambda>l. l = []) (listed ?t)"
    using b by (auto simp: list_all_iff dest: kubectl_down_answers)
  with e have g: "times sleep5 ?t = 60" "times announces ?t = 0" by simp_all
  from d g have "length (verdicts (listed ?t)) = 60" by simp
  then have "times counting ?t = 60" using c by (simp add: length_verdicts)
  with a c have "times listing ?t = 120" by simp
  with shell_word_home f g show ?thesis by simp
qed

subsection \<open>The Docker loop and the VM step\<close>

lemma exec_docker_info:
  "out_file rs = None \<Longrightarrow> heredoc rs = None \<Longrightarrow>
   exec x (docker_info h rs) inp s =
     (case x (world s) \<lparr>argv = [''docker'', ''info''], input = inp,
                         cenv = call_env s [(''DOCKER_HOST'', [Lit (dockerHost h)])]\<rparr> of
        (st, out, w) \<Rightarrow>
          (st, if Out_null \<in> set rs then [] else out,
           s\<lparr>world := w,
             xtrace := xtrace s @ [Exec \<lparr>argv = [''docker'', ''info''], input = inp,
                         cenv = call_env s [(''DOCKER_HOST'', [Lit (dockerHost h)])]\<rparr> st]\<rparr>))"
  by (simp add: docker_info_def exec_def utility_external Let_def split: prod.splits)

lemma utility_grep_E: "utility [''grep'', ''-E'', p] inp = None"
  by (simp add: utility_def)

lemma exec_grep_E:
  "exec x (cmd [''grep'', ''-E'', p] []) inp s =
     (case x (world s) \<lparr>argv = [''grep'', ''-E'', p], input = inp, cenv = call_env s []\<rparr> of
        (st, out, w) \<Rightarrow>
          (st, out,
           s\<lparr>world := w,
             xtrace := xtrace s @ [Exec \<lparr>argv = [''grep'', ''-E'', p], input = inp, cenv = call_env s []\<rparr> st]\<rparr>))"
  by (simp add: cmd_def exec_def utility_grep_E Let_def split: prod.splits)

lemma docker_round_summary:
  assumes "flow s = Normal"
  shows "\<exists>evs. xtrace (eval x (docker_round h) s) = xtrace s @ evs \<and>
           list_all (ran_as waiting_cmd) evs \<and>
           (flow (eval x (docker_round h) s) = Breaking \<and> times sleep5 evs = 0 \<and>
              times docker_info_call evs = 2 \<and> (\<exists>out. answers x ''docker'' 0 out)
            \<or> flow (eval x (docker_round h) s) = Normal \<and> times sleep5 evs = 1 \<and>
              times docker_info_call evs = 1 \<and>
              last_exec evs = Some ([''sleep'', ''5''], status (eval x (docker_round h) s)))"
proof -
  let ?env = "call_env s [(''DOCKER_HOST'', [Lit (dockerHost h)])]"
  let ?r = "eval x (docker_round h) s"
  obtain a1 o1 w1 where r1:
    "x (world s) \<lparr>argv = [''docker'', ''info''], input = [], cenv = ?env\<rparr> = (a1, o1, w1)"
    by (metis prod_cases3)
  show ?thesis
  proof (cases "a1 = 0")
    case True
    obtain a2 o2 w2 where r2:
      "x w1 \<lparr>argv = [''docker'', ''info''], input = [], cenv = ?env\<rparr> = (a2, o2, w2)"
      by (metis prod_cases3)
    obtain a3 o3 w3 where r3:
      "x w2 \<lparr>argv = [''grep'', ''-E'', ''Server Version|Operating System''], input = o2,
             cenv = call_env s []\<rparr> = (a3, o3, w3)"
      by (metis prod_cases3)
    have "xtrace ?r = xtrace s @
        [Exec \<lparr>argv = [''docker'', ''info''], input = [], cenv = ?env\<rparr> a1,
         Exec \<lparr>argv = [''echo'', ''Docker is ready''], input = [], cenv = call_env s []\<rparr> 0,
         Exec \<lparr>argv = [''docker'', ''info''], input = [], cenv = ?env\<rparr> a2,
         Exec \<lparr>argv = [''grep'', ''-E'', ''Server Version|Operating System''], input = o2,
                cenv = call_env s []\<rparr> a3]"
      and "flow ?r = Breaking"
      using assms True
      by (simp_all add: docker_round_def exec_docker_info exec_grep_E eval_echo r1 r2 r3 Let_def)
    moreover have "\<exists>out. answers x ''docker'' 0 out"
      using answersI [of x, OF r1, of "''docker''"] True by (auto simp: tool_def)
    ultimately show ?thesis
      by (simp add: sleep5_def docker_info_call_def waiting_cmd_def tool_def)
  next
    case False
    obtain a2 o2 w2 where r2:
      "x w1 \<lparr>argv = [''sleep'', ''5''], input = [], cenv = call_env s []\<rparr> = (a2, o2, w2)"
      by (metis prod_cases3)
    have "xtrace ?r = xtrace s @
        [Exec \<lparr>argv = [''docker'', ''info''], input = [], cenv = ?env\<rparr> a1,
         Exec \<lparr>argv = [''echo'', expand (vars s) [Lit ''Waiting for Docker... ('', Var ''i'', Lit ''/30)'']],
                input = [], cenv = call_env s []\<rparr> 0,
         Exec \<lparr>argv = [''sleep'', ''5''], input = [], cenv = call_env s []\<rparr> a2]"
      and "flow ?r = Normal" and "status ?r = a2"
      using assms False
      by (simp_all add: docker_round_def exec_docker_info eval_echo_w eval_run_external r1 r2 Let_def)
    then show ?thesis
      by (simp add: sleep5_def docker_info_call_def waiting_cmd_def tool_def)
  qed
qed


lemma docker_rounds_summary:
  assumes "flow s = Normal"
  shows "\<exists>evs k.
           xtrace (iterate x v is (docker_round h) s) = xtrace s @ evs \<and>
           list_all (ran_as waiting_cmd) evs \<and>
           flow (iterate x v is (docker_round h) s) = Normal \<and>
           times sleep5 evs = k \<and>
           (if k < length is
            then times docker_info_call evs = k + 2 \<and> (\<exists>out. answers x ''docker'' 0 out)
            else k = length is \<and> times docker_info_call evs = k \<and>
                 (is \<noteq> [] \<longrightarrow>
                  last_exec evs = Some ([''sleep'', ''5''], status (iterate x v is (docker_round h) s))))"
  using assms
proof (induction "is" arbitrary: s)
  case Nil
  then show ?case by simp
next
  case (Cons i "is")
  let ?s = "s\<lparr>vars := (v, i) # vars s\<rparr>"
  let ?r = "eval x (docker_round h) ?s"
  have fs: "flow ?s = Normal" using Cons.prems by simp
  from docker_round_summary [OF fs, of x h]
  obtain e where e: "xtrace ?r = xtrace s @ e" "list_all (ran_as waiting_cmd) e"
      "flow ?r = Breaking \<and> times sleep5 e = 0 \<and> times docker_info_call e = 2 \<and>
         (\<exists>out. answers x ''docker'' 0 out)
       \<or> flow ?r = Normal \<and> times sleep5 e = 1 \<and> times docker_info_call e = 1 \<and>
         last_exec e = Some ([''sleep'', ''5''], status ?r)"
    by auto
  show ?case
  proof (cases "flow ?r = Breaking")
    case True
    with e have "times sleep5 e = 0" "times docker_info_call e = 2"
      "\<exists>out. answers x ''docker'' 0 out" by auto
    then show ?thesis using e(1,2) True
      by (rule_tac x = e in exI, rule_tac x = 0 in exI) simp
  next
    case False
    with e have n: "flow ?r = Normal" "times sleep5 e = 1" "times docker_info_call e = 1"
      "last_exec e = Some ([''sleep'', ''5''], status ?r)" by auto
    from Cons.IH [OF n(1)]
    obtain e' k where e': "xtrace (iterate x v is (docker_round h) ?r) = xtrace ?r @ e'"
      "list_all (ran_as waiting_cmd) e'"
      "flow (iterate x v is (docker_round h) ?r) = Normal"
      "times sleep5 e' = k"
      "if k < length is
       then times docker_info_call e' = k + 2 \<and> (\<exists>out. answers x ''docker'' 0 out)
       else k = length is \<and> times docker_info_call e' = k \<and>
            (is \<noteq> [] \<longrightarrow>
             last_exec e' = Some ([''sleep'', ''5''], status (iterate x v is (docker_round h) ?r)))"
      by auto
    have it: "iterate x v (i # is) (docker_round h) s = iterate x v is (docker_round h) ?r"
      using n(1) by simp
    show ?thesis
    proof (cases "is = []")
      case True
      then show ?thesis using e(1,2) n it
        by (rule_tac x = e in exI, rule_tac x = 1 in exI) simp
    next
      case ne: False
      show ?thesis unfolding it using e(1,2) e' n ne
        by (rule_tac x = "e @ e'" in exI, rule_tac x = "Suc k" in exI)
           (auto simp: last_exec_append_Some split: if_splits)
    qed
  qed
qed

lemma docker_loop_summary:
  assumes "flow s = Normal"
  shows "\<exists>evs k.
           xtrace (eval x (docker_loop h) s) = xtrace s @ evs \<and>
           list_all (ran_as waiting_cmd) evs \<and>
           flow (eval x (docker_loop h) s) = Normal \<and>
           times sleep5 evs = k \<and>
           (if k < 30
            then times docker_info_call evs = k + 2 \<and> (\<exists>out. answers x ''docker'' 0 out)
            else k = 30 \<and> times docker_info_call evs = 30 \<and>
                 last_exec evs = Some ([''sleep'', ''5''], status (eval x (docker_loop h) s)))"
proof -
  let ?s = "s\<lparr>xtrace := xtrace s @
              [Exec \<lparr>argv = [''seq'', ''1'', ''30''], input = [], cenv = call_env s []\<rparr> 0],
            status := 0\<rparr>"
  define items where "items = shell_fields (capture (map dec [1..<Suc 30]))"
  have len: "length items = 30" unfolding items_def by (rule items_30)
  have ev: "eval x (docker_loop h) s = iterate x ''i'' items (docker_round h) ?s"
    unfolding items_def
    by (simp add: docker_loop_def run_def exec_utility [OF utility_seq_30] Let_def del: upt_Suc)
  have f: "flow ?s = Normal" using assms by simp
  have ne: "items \<noteq> []" using len by auto
  from docker_rounds_summary [OF f, of x "''i''" items h]
  obtain e k where e: "xtrace (iterate x ''i'' items (docker_round h) ?s) = xtrace ?s @ e"
      "list_all (ran_as waiting_cmd) e"
      "flow (iterate x ''i'' items (docker_round h) ?s) = Normal"
      "times sleep5 e = k"
      "if k < length items
       then times docker_info_call e = k + 2 \<and> (\<exists>out. answers x ''docker'' 0 out)
       else k = length items \<and> times docker_info_call e = k \<and>
            (items \<noteq> [] \<longrightarrow>
             last_exec e = Some ([''sleep'', ''5''], status (iterate x ''i'' items (docker_round h) ?s)))"
    by blast
  have le: "last_exec e = Some z \<Longrightarrow> last_exec (c # e) = Some z" for c z
    using last_exec_append_Some [of e z "[c]"] by simp
  show ?thesis
    unfolding ev using e ne
    by (rule_tac x = "Exec \<lparr>argv = [''seq'', ''1'', ''30''], input = [], cenv = call_env s []\<rparr> 0 # e" in exI,
        rule_tac x = k in exI)
       (auto simp: len sleep5_def docker_info_call_def waiting_cmd_def tool_def le split: if_splits)
qed


lemma utility_grep_q_entry:
  "utility [''grep'', ''-q'', vm_entry] inp =
     Some (if list_ex (\<lambda>l. contains l vm_entry) inp then 0 else 1, [])"
  by (simp add: utility_def plain_pattern_def vm_entry_def vmName_def bslash_def)

lemma utility_grep_q_running:
  \<open>utility [''grep'', ''-q'', ''"status":"Running"''] inp =
     Some (if list_ex (\<lambda>l. contains l ''"status":"Running"'') inp then 0 else 1, [])\<close>
  by (simp add: utility_def plain_pattern_def bslash_def)

lemma utility_grep_A: "utility [''grep'', ''-A'', n, p] inp = None"
  by (simp add: utility_def)

lemma exec_grep_A:
  "exec x (cmd [''grep'', ''-A'', n, p] []) inp s =
     (case x (world s) \<lparr>argv = [''grep'', ''-A'', n, p], input = inp, cenv = call_env s []\<rparr> of
        (st, out, w) \<Rightarrow>
          (st, out,
           s\<lparr>world := w,
             xtrace := xtrace s @ [Exec \<lparr>argv = [''grep'', ''-A'', n, p], input = inp, cenv = call_env s []\<rparr> st]\<rparr>))"
  by (simp add: cmd_def exec_def utility_grep_A Let_def split: prod.splits)


lemma ensure_vm_summary:
  assumes "flow s = Normal"
  shows "\<exists>evs g.
           xtrace (eval x ensure_vm s) = xtrace s @ evs \<and>
           flow (eval x ensure_vm s) = Normal \<and>
           times sleep5 evs = 0 \<and> times docker_info_call evs = 0 \<and>
           take 2 (commands evs) = [[''limactl'', ''list'', ''--format'', ''json''], [''grep'', ''-q'', vm_entry]] \<and>
           first_status vm_probe evs = Some g \<and>
           times vm_creation evs = (if g = 0 then 0 else 1)"
proof -
  obtain a1 o1 w1 where r1:
    "x (world s) \<lparr>argv = [''limactl'', ''list'', ''--format'', ''json''], input = [],
                   cenv = call_env s []\<rparr> = (a1, o1, w1)"
    by (metis prod_cases3)
  show ?thesis
  proof (cases "list_ex (\<lambda>l. contains l vm_entry) o1")
    case True
    obtain a2 o2 w2 where r2:
      "x w1 \<lparr>argv = [''limactl'', ''list'', ''--format'', ''json''], input = [],
                   cenv = call_env s []\<rparr> = (a2, o2, w2)"
      by (metis prod_cases3)
    obtain a3 o3 w3 where r3:
      "x w2 \<lparr>argv = [''grep'', ''-A'', ''5'', vm_entry], input = o2,
                   cenv = call_env s []\<rparr> = (a3, o3, w3)"
      by (metis prod_cases3)
    obtain a4 o4 w4 where r4:
      "x w3 \<lparr>argv = [''limactl'', ''start'', vmName], input = [],
                   cenv = call_env s []\<rparr> = (a4, o4, w4)"
      by (metis prod_cases3)
    show ?thesis
      using assms True
      by (rule_tac x = "drop (length (xtrace s)) (xtrace (eval x ensure_vm s))" in exI,
          rule_tac x = 0 in exI)
         (simp add: ensure_vm_def list_vms_def exec_external exec_grep_A
          exec_utility [OF utility_grep_q_entry] exec_utility [OF utility_grep_q_running]
          eval_echo eval_run_external r1 r2 r3 r4 Let_def sleep5_def docker_info_call_def
          vm_probe_def vm_creation_def subcommand_def)
  next
    case False
    obtain a2 o2 w2 where
      "x w1 \<lparr>argv = [''limactl'', ''create'', ''--name='' @ vmName, limaConfigPath, ''--tty=false''],
             input = [], cenv = call_env s []\<rparr> = (a2, o2, w2)"
      by (metis prod_cases3)
    note r2 = this [simplified]
    obtain a3 o3 w3 where r3:
      "x w2 \<lparr>argv = [''limactl'', ''start'', vmName], input = [],
                   cenv = call_env s []\<rparr> = (a3, o3, w3)"
      by (metis prod_cases3)
    show ?thesis
      using assms False
      by (rule_tac x = "drop (length (xtrace s)) (xtrace (eval x ensure_vm s))" in exI,
          rule_tac x = 1 in exI)
         (simp add: ensure_vm_def list_vms_def exec_external
          exec_utility [OF utility_grep_q_entry]
          eval_echo eval_run_external r1 r2 r3 Let_def sleep5_def docker_info_call_def
          vm_probe_def vm_creation_def subcommand_def)
  qed
qed


lemma vm_summary:
  "\<exists>g k. flow (run_create x (limaVm h) w) = Normal \<and>
     take 2 (commands (xtrace (run_create x (limaVm h) w))) =
       [[''limactl'', ''list'', ''--format'', ''json''], [''grep'', ''-q'', vm_entry]] \<and>
     first_status vm_probe (xtrace (run_create x (limaVm h) w)) = Some g \<and>
     times vm_creation (xtrace (run_create x (limaVm h) w)) = (if g = 0 then 0 else 1) \<and>
     times sleep5 (xtrace (run_create x (limaVm h) w)) = k \<and>
     (if k < 30
      then times docker_info_call (xtrace (run_create x (limaVm h) w)) = k + 2 \<and>
           (\<exists>out. answers x ''docker'' 0 out)
      else k = 30 \<and> times docker_info_call (xtrace (run_create x (limaVm h) w)) = 30 \<and>
           last_exec (xtrace (run_create x (limaVm h) w)) =
             Some ([''sleep'', ''5''], status (run_create x (limaVm h) w)))"
proof -
  define s1 where "s1 = eval x ensure_vm (start w [])"
  from ensure_vm_summary [of "start w []" x]
  obtain e1 g where e1: "xtrace s1 = e1" "flow s1 = Normal" "times sleep5 e1 = 0"
      "times docker_info_call e1 = 0"
      "take 2 (commands e1) = [[''limactl'', ''list'', ''--format'', ''json''], [''grep'', ''-q'', vm_entry]]"
      "first_status vm_probe e1 = Some g" "times vm_creation e1 = (if g = 0 then 0 else 1)"
    unfolding s1_def by auto
  define s2 where "s2 = eval x (echo ''Waiting for Docker to be ready...'') s1"
  have s2: "flow s2 = Normal" "xtrace s2 = e1 @ [Exec \<lparr>argv = [''echo'', ''Waiting for Docker to be ready...''], input = [],
      cenv = call_env s1 []\<rparr> 0]"
    by (simp_all add: s2_def eval_echo e1)
  from docker_loop_summary [OF s2(1), of x h]
  obtain e k where e: "xtrace (eval x (docker_loop h) s2) = xtrace s2 @ e"
      "list_all (ran_as waiting_cmd) e"
      "flow (eval x (docker_loop h) s2) = Normal"
      "times sleep5 e = k"
      "if k < 30
       then times docker_info_call e = k + 2 \<and> (\<exists>out. answers x ''docker'' 0 out)
       else k = 30 \<and> times docker_info_call e = 30 \<and>
            last_exec e = Some ([''sleep'', ''5''], status (eval x (docker_loop h) s2))"
    by blast
  have run: "run_create x (limaVm h) w = eval x (docker_loop h) s2"
    using e1(2) unfolding s2_def s1_def
    by (simp add: run_create_def run_script_def limaVm_def limaVm_create_def Let_def eval_echo)
  have nc: "times vm_creation e = 0"
    by (rule times_none [OF e(2)]) (auto simp: waiting_cmd_def vm_creation_def subcommand_def tool_def split: list.splits)
  have l2: "length (commands e1) \<ge> 2" using e1(5) by (metis length_take min.cobounded1 length_Cons list.size(3) One_nat_def Suc_1)
  show ?thesis
    unfolding run using e e1 s2 nc l2
    by (rule_tac x = g in exI, rule_tac x = k in exI)
       (auto simp: sleep5_def docker_info_call_def vm_creation_def vm_probe_def subcommand_def
          first_status_append last_exec_append_Some last_exec_cons_Some split: if_splits)
qed

subsection \<open>The executor\<close>

lemma up_outcomes:
  "\<exists>os. outcomes (up x cs p) = outcomes p @ os \<and> map fst os = map name cs \<and>
        (\<forall>i < length cs.
           if deps_ok (outcomes p @ take i os) (cs ! i)
           then \<exists>w'. snd (os ! i) = (if status (run_create x (cs ! i) w') = 0 then Succeeded else Failed)
           else snd (os ! i) = Skipped)"
proof (induction cs arbitrary: p)
  case Nil
  then show ?case by simp
next
  case (Cons c cs)
  define q where "q =
     (if deps_ok (outcomes p) c then
        (let s = run_script x (environment c) (create c) (now p)
         in \<lparr>now = world s,
             outcomes = outcomes p @ [(name c, if status s = 0 then Succeeded else Failed)],
             ran = ran p @ [(name c, xtrace s)]\<rparr>)
      else p\<lparr>outcomes := outcomes p @ [(name c, Skipped)]\<rparr>)"
  have step: "up x (c # cs) p = up x cs q"
    by (simp add: q_def Let_def)
  obtain e where e: "outcomes q = outcomes p @ [e]" "fst e = name c"
    "if deps_ok (outcomes p) c
     then \<exists>w'. snd e = (if status (run_create x c w') = 0 then Succeeded else Failed)
     else snd e = Skipped"
    by (cases "deps_ok (outcomes p) c") (auto simp add: q_def Let_def run_create_def)
  from Cons.IH [of q] obtain os where os:
    "outcomes (up x cs q) = outcomes q @ os" "map fst os = map name cs"
    "\<forall>i < length cs.
       if deps_ok (outcomes q @ take i os) (cs ! i)
       then \<exists>w'. snd (os ! i) = (if status (run_create x (cs ! i) w') = 0 then Succeeded else Failed)
       else snd (os ! i) = Skipped"
    by blast
  have "\<forall>i < length (c # cs).
          if deps_ok (outcomes p @ take i (e # os)) ((c # cs) ! i)
          then \<exists>w'. snd ((e # os) ! i) =
                 (if status (run_create x ((c # cs) ! i) w') = 0 then Succeeded else Failed)
          else snd ((e # os) ! i) = Skipped"
  proof (intro allI impI)
    fix i assume i: "i < length (c # cs)"
    show "if deps_ok (outcomes p @ take i (e # os)) ((c # cs) ! i)
          then \<exists>w'. snd ((e # os) ! i) =
                 (if status (run_create x ((c # cs) ! i) w') = 0 then Succeeded else Failed)
          else snd ((e # os) ! i) = Skipped"
    proof (cases i)
      case 0
      with e(3) show ?thesis by simp
    next
      case (Suc j)
      with i os(3) e(1) show ?thesis by simp
    qed
  qed
  with os(1,2) e(1,2) step show ?case
    by (rule_tac x = "e # os" in exI) simp
qed

lemma map_of_take_nth:
  assumes "distinct (map fst os)" "i < length os"
  shows "map_of (take (Suc i) os) (fst (os ! i)) = Some (snd (os ! i))"
proof -
  have d: "distinct (map fst (take (Suc i) os))"
    using assms(1) by (simp add: take_map [symmetric] distinct_take)
  have "os ! i \<in> set (take (Suc i) os)"
    using assms(2) by (simp add: take_Suc_conv_app_nth)
  then have "(fst (os ! i), snd (os ! i)) \<in> set (take (Suc i) os)" by simp
  with d show ?thesis by (rule map_of_is_SomeI)
qed

lemma next_step_Suc:
  assumes "distinct (map name cs)" "Suc i < length cs" "depends_on (cs ! Suc i) = [name (cs ! i)]"
  shows "(snd (outcomes (pulumi_up x cs w) ! Suc i) \<noteq> Skipped) =
           (snd (outcomes (pulumi_up x cs w) ! i) = Succeeded)"
    and "snd (outcomes (pulumi_up x cs w) ! Suc i) \<noteq> Skipped \<longrightarrow>
           (\<exists>w'. snd (outcomes (pulumi_up x cs w) ! Suc i) =
              (if status (run_create x (cs ! Suc i) w') = 0 then Succeeded else Failed))"
proof -
  from up_outcomes [of x cs "\<lparr>now = w, outcomes = [], ran = []\<rparr>"]
  obtain os where os: "outcomes (pulumi_up x cs w) = os" "map fst os = map name cs"
    "\<forall>i < length cs.
       if deps_ok (take i os) (cs ! i)
       then \<exists>w'. snd (os ! i) = (if status (run_create x (cs ! i) w') = 0 then Succeeded else Failed)
       else snd (os ! i) = Skipped"
    by (auto simp: pulumi_up_def)
  have len: "length os = length cs" using os(2) by (metis length_map)
  have n: "fst (os ! i) = name (cs ! i)"
    using os(2) assms(2) len by (metis Suc_lessD nth_map)
  have "map_of (take (Suc i) os) (fst (os ! i)) = Some (snd (os ! i))"
    using assms(1,2) os(2) len by (intro map_of_take_nth) simp_all
  then have d: "deps_ok (take (Suc i) os) (cs ! Suc i) = (snd (os ! i) = Succeeded)"
    by (simp add: deps_ok_def assms(3) n)
  from os(3) assms(2) have
    "if deps_ok (take (Suc i) os) (cs ! Suc i)
     then \<exists>w'. snd (os ! Suc i) = (if status (run_create x (cs ! Suc i) w') = 0 then Succeeded else Failed)
     else snd (os ! Suc i) = Skipped"
    by blast
  with d show "(snd (outcomes (pulumi_up x cs w) ! Suc i) \<noteq> Skipped) =
           (snd (outcomes (pulumi_up x cs w) ! i) = Succeeded)"
    and "snd (outcomes (pulumi_up x cs w) ! Suc i) \<noteq> Skipped \<longrightarrow>
           (\<exists>w'. snd (outcomes (pulumi_up x cs w) ! Suc i) =
              (if status (run_create x (cs ! Suc i) w') = 0 then Succeeded else Failed))"
    unfolding os(1) by (auto split: if_splits)
qed

lemma first_step:
  assumes "cs \<noteq> []" "depends_on (cs ! 0) = []"
  shows "\<exists>w'. snd (outcomes (pulumi_up x cs w) ! 0) =
           (if status (run_create x (cs ! 0) w') = 0 then Succeeded else Failed)"
proof -
  from up_outcomes [of x cs "\<lparr>now = w, outcomes = [], ran = []\<rparr>"]
  obtain os where os: "outcomes (pulumi_up x cs w) = os"
    "\<forall>i < length cs.
       if deps_ok (take i os) (cs ! i)
       then \<exists>w'. snd (os ! i) = (if status (run_create x (cs ! i) w') = 0 then Succeeded else Failed)
       else snd (os ! i) = Skipped"
    by (auto simp: pulumi_up_def)
  from os(2) assms(1) have
    "if deps_ok (take 0 os) (cs ! 0)
     then \<exists>w'. snd (os ! 0) = (if status (run_create x (cs ! 0) w') = 0 then Succeeded else Failed)
     else snd (os ! 0) = Skipped"
    by blast
  then show ?thesis unfolding os(1) by (simp add: deps_ok_def assms(2))
qed

lemma next_step:
  assumes "distinct (map name cs)" "j = Suc i" "j < length cs"
    "depends_on (cs ! j) = [name (cs ! i)]"
  shows "(snd (outcomes (pulumi_up x cs w) ! j) \<noteq> Skipped) =
           (snd (outcomes (pulumi_up x cs w) ! i) = Succeeded)"
    and "snd (outcomes (pulumi_up x cs w) ! j) \<noteq> Skipped \<longrightarrow>
           (\<exists>w'. snd (outcomes (pulumi_up x cs w) ! j) =
              (if status (run_create x (cs ! j) w') = 0 then Succeeded else Failed))"
proof -
  from assms have a: "Suc i < length cs" "depends_on (cs ! Suc i) = [name (cs ! i)]"
    by simp_all
  show "(snd (outcomes (pulumi_up x cs w) ! j) \<noteq> Skipped) =
           (snd (outcomes (pulumi_up x cs w) ! i) = Succeeded)"
    unfolding assms(2) by (rule next_step_Suc(1) [OF assms(1) a])
  show "snd (outcomes (pulumi_up x cs w) ! j) \<noteq> Skipped \<longrightarrow>
           (\<exists>w'. snd (outcomes (pulumi_up x cs w) ! j) =
              (if status (run_create x (cs ! j) w') = 0 then Succeeded else Failed))"
    unfolding assms(2) by (rule next_step_Suc(2) [OF assms(1) a])
qed

lemmas main_defs = registered_def createTalosDir_def createCluster_def exportKubeconfig_def
  waitForK8s_def applySecurityHardening_def verifyCluster_def

lemmas vm_defs = registered_vm_def createDirs_def createLimaConfig_def limaVm_def
  createCluster_vm_def exportKubeconfig_vm_def waitForK8s_def
  applySecurityHardening_vm_def verifyCluster_vm_def

lemma steps_main:
  "distinct (map name (registered h))" "length (registered h) = 6"
  "registered h \<noteq> []"
  "registered h ! 0 = createTalosDir h" "registered h ! 1 = createCluster h"
  "registered h ! 2 = exportKubeconfig h" "registered h ! 3 = waitForK8s h"
  "depends_on (registered h ! 0) = []"
  "depends_on (registered h ! 1) = [name (registered h ! 0)]"
  "depends_on (registered h ! 2) = [name (registered h ! 1)]"
  "depends_on (registered h ! 3) = [name (registered h ! 2)]"
  "depends_on (registered h ! 4) = [name (registered h ! 3)]"
  by (simp_all add: main_defs)

lemma steps_vm:
  "distinct (map name (registered_vm h))" "length (registered_vm h) = 8"
  "depends_on (registered_vm h ! 3) = [name (registered_vm h ! 2)]"
  "depends_on (registered_vm h ! 6) = [name (registered_vm h ! 5)]"
  by (simp_all add: vm_defs)

lemma pipeline_main:
  "\<exists>w'. snd (outcomes (pulumi_up x (registered h) w) ! 0) =
     (if status (run_create x (createTalosDir h) w') = 0 then Succeeded else Failed)"
  "(snd (outcomes (pulumi_up x (registered h) w) ! 1) \<noteq> Skipped) =
     (snd (outcomes (pulumi_up x (registered h) w) ! 0) = Succeeded)"
  "snd (outcomes (pulumi_up x (registered h) w) ! 1) \<noteq> Skipped \<longrightarrow>
     (\<exists>w'. snd (outcomes (pulumi_up x (registered h) w) ! 1) =
        (if status (run_create x (createCluster h) w') = 0 then Succeeded else Failed))"
  "(snd (outcomes (pulumi_up x (registered h) w) ! 2) \<noteq> Skipped) =
     (snd (outcomes (pulumi_up x (registered h) w) ! 1) = Succeeded)"
  "snd (outcomes (pulumi_up x (registered h) w) ! 2) \<noteq> Skipped \<longrightarrow>
     (\<exists>w'. snd (outcomes (pulumi_up x (registered h) w) ! 2) =
        (if status (run_create x (exportKubeconfig h) w') = 0 then Succeeded else Failed))"
  "(snd (outcomes (pulumi_up x (registered h) w) ! 3) \<noteq> Skipped) =
     (snd (outcomes (pulumi_up x (registered h) w) ! 2) = Succeeded)"
  "snd (outcomes (pulumi_up x (registered h) w) ! 3) \<noteq> Skipped \<longrightarrow>
     (\<exists>w'. snd (outcomes (pulumi_up x (registered h) w) ! 3) =
        (if status (run_create x (waitForK8s h) w') = 0 then Succeeded else Failed))"
  "(snd (outcomes (pulumi_up x (registered h) w) ! 4) \<noteq> Skipped) =
     (snd (outcomes (pulumi_up x (registered h) w) ! 3) = Succeeded)"
proof -
  note d = steps_main(1) [of h]
  have l: "1 < length (registered h)" "2 < length (registered h)" "3 < length (registered h)"
    "4 < length (registered h)"
    by (simp_all add: steps_main(2))
  have e: "(1::nat) = Suc 0" "(2::nat) = Suc 1" "(3::nat) = Suc 2" "(4::nat) = Suc 3"
    by simp_all
  show "\<exists>w'. snd (outcomes (pulumi_up x (registered h) w) ! 0) =
     (if status (run_create x (createTalosDir h) w') = 0 then Succeeded else Failed)"
    using first_step [OF steps_main(3) steps_main(8), of x h w] unfolding steps_main(4) .
  show "(snd (outcomes (pulumi_up x (registered h) w) ! 1) \<noteq> Skipped) =
     (snd (outcomes (pulumi_up x (registered h) w) ! 0) = Succeeded)"
    by (rule next_step(1) [OF d e(1) l(1) steps_main(9)])
  show "snd (outcomes (pulumi_up x (registered h) w) ! 1) \<noteq> Skipped \<longrightarrow>
     (\<exists>w'. snd (outcomes (pulumi_up x (registered h) w) ! 1) =
        (if status (run_create x (createCluster h) w') = 0 then Succeeded else Failed))"
    using next_step(2) [OF d e(1) l(1) steps_main(9), of x w] unfolding steps_main(5) .
  show "(snd (outcomes (pulumi_up x (registered h) w) ! 2) \<noteq> Skipped) =
     (snd (outcomes (pulumi_up x (registered h) w) ! 1) = Succeeded)"
    by (rule next_step(1) [OF d e(2) l(2) steps_main(10)])
  show "snd (outcomes (pulumi_up x (registered h) w) ! 2) \<noteq> Skipped \<longrightarrow>
     (\<exists>w'. snd (outcomes (pulumi_up x (registered h) w) ! 2) =
        (if status (run_create x (exportKubeconfig h) w') = 0 then Succeeded else Failed))"
    using next_step(2) [OF d e(2) l(2) steps_main(10), of x w] unfolding steps_main(6) .
  show "(snd (outcomes (pulumi_up x (registered h) w) ! 3) \<noteq> Skipped) =
     (snd (outcomes (pulumi_up x (registered h) w) ! 2) = Succeeded)"
    by (rule next_step(1) [OF d e(3) l(3) steps_main(11)])
  show "snd (outcomes (pulumi_up x (registered h) w) ! 3) \<noteq> Skipped \<longrightarrow>
     (\<exists>w'. snd (outcomes (pulumi_up x (registered h) w) ! 3) =
        (if status (run_create x (waitForK8s h) w') = 0 then Succeeded else Failed))"
    using next_step(2) [OF d e(3) l(3) steps_main(11), of x w] unfolding steps_main(7) .
  show "(snd (outcomes (pulumi_up x (registered h) w) ! 4) \<noteq> Skipped) =
     (snd (outcomes (pulumi_up x (registered h) w) ! 3) = Succeeded)"
    by (rule next_step(1) [OF d e(4) l(4) steps_main(12)])
qed

lemma pipeline_vm:
  "(snd (outcomes (pulumi_up x (registered_vm h) w) ! 6) \<noteq> Skipped) =
     (snd (outcomes (pulumi_up x (registered_vm h) w) ! 5) = Succeeded)"
  "(snd (outcomes (pulumi_up x (registered_vm h) w) ! 3) \<noteq> Skipped) =
     (snd (outcomes (pulumi_up x (registered_vm h) w) ! 2) = Succeeded)"
proof -
  have l: "6 < length (registered_vm h)" "3 < length (registered_vm h)"
    by (simp_all add: steps_vm(2))
  have e: "(6::nat) = Suc 5" "(3::nat) = Suc 2"
    by simp_all
  show "(snd (outcomes (pulumi_up x (registered_vm h) w) ! 6) \<noteq> Skipped) =
     (snd (outcomes (pulumi_up x (registered_vm h) w) ! 5) = Succeeded)"
    by (rule next_step(1) [OF steps_vm(1) e(1) l(1) steps_vm(4)])
  show "(snd (outcomes (pulumi_up x (registered_vm h) w) ! 3) \<noteq> Skipped) =
     (snd (outcomes (pulumi_up x (registered_vm h) w) ! 2) = Succeeded)"
    by (rule next_step(1) [OF steps_vm(1) e(2) l(2) steps_vm(3)])
qed

subsection \<open>The polling loops\<close>

lemma loops_counted:
  "(let t = xtrace (run_create x (waitForK8s h) w); k = times sleep5 t
    in k \<le> 60 \<and> times counting t = (if k < 60 then k + 1 else 60) \<and>
       times listing t = 2 * times counting t) \<and>
   (let t = xtrace (run_create x (limaVm h) w); k = times sleep5 t
    in k \<le> 30 \<and> times docker_info_call t = (if k < 30 then k + 2 else 30))"
proof -
  let ?t = "xtrace (run_create x (waitForK8s h) w)"
  from wait_summary [of x h w]
  have a: "times listing ?t = length (listed ?t)"
    and b: "2 * times counting ?t = length (listed ?t)"
    and c: "if times sleep5 ?t < 60
            then verdicts (listed ?t) = replicate (times sleep5 ?t) False @ [True]
            else times sleep5 ?t = 60 \<and> verdicts (listed ?t) = replicate (times sleep5 ?t) False"
    by auto
  have "length (verdicts (listed ?t)) = times counting ?t"
    using b by (simp add: length_verdicts)
  with c have d: "times counting ?t = (if times sleep5 ?t < 60 then times sleep5 ?t + 1 else 60)"
    by (auto split: if_splits)
  have e: "times sleep5 ?t \<le> 60" using c by (auto split: if_splits)
  from vm_summary [of x h w] have f:
    "times sleep5 (xtrace (run_create x (limaVm h) w)) \<le> 30 \<and>
     times docker_info_call (xtrace (run_create x (limaVm h) w)) =
       (if times sleep5 (xtrace (run_create x (limaVm h) w)) < 30
        then times sleep5 (xtrace (run_create x (limaVm h) w)) + 2 else 30)"
    by (auto split: if_splits)
  show ?thesis using a b d e f by (simp add: Let_def)
qed

lemma vm_exhausted_when_down:
  "times sleep5 (xtrace (run_create docker_down (limaVm h) ())) = 30"
proof -
  let ?t = "xtrace (run_create docker_down (limaVm h) ())"
  from vm_summary [of docker_down h "()"]
  have c: "if times sleep5 ?t < 30
       then times docker_info_call ?t = times sleep5 ?t + 2 \<and>
            (\<exists>out. answers docker_down ''docker'' 0 out)
       else times sleep5 ?t = 30 \<and> times docker_info_call ?t = 30 \<and>
            last_exec ?t = Some ([''sleep'', ''5''], status (run_create docker_down (limaVm h) ()))"
    by blast
  show ?thesis
  proof (cases "times sleep5 ?t < 30")
    case True
    with c obtain out where "answers docker_down ''docker'' 0 out" by auto
    from docker_down_answers [OF this] show ?thesis by simp
  next
    case False
    with c show ?thesis by simp
  qed
qed

text \<open>
  C2, as stated, fails in its last clause: a round of the node loop does not run one
  probe, it lists the nodes twice.  With a cluster that cannot be reached the loop runs
  sixty rounds, each with one count of the Ready nodes, and lists the nodes 120 times.
\<close>

theorem node_round_lists_twice:
  "times sleep5 (xtrace (run_create kubectl_down (waitForK8s ''/Users/justin'') ())) = 60 \<and>
   times counting (xtrace (run_create kubectl_down (waitForK8s ''/Users/justin'') ())) = 60 \<and>
   times listing (xtrace (run_create kubectl_down (waitForK8s ''/Users/justin'') ())) = 120"
  using loops_counted [of kubectl_down "''/Users/justin''" "()"]
    wait_exhausted_when_down [of "''/Users/justin''"]
  by (simp add: Let_def)

text \<open>
  C2, amended: both polling loops stop after a fixed number of rounds, whatever the
  environment answers (the functions are total: a run ends as soon as every command it
  calls returns).  With \<open>k\<close> the number of \<^verbatim>\<open>sleep 5\<close> in the trace of
  \<^verbatim>\<open>wait-for-kubernetes\<close>: \<open>k \<le> 60\<close>, the rounds (one count of Ready nodes each) are \<open>k + 1\<close>
  when the loop broke out and 60 otherwise, and every round lists the nodes twice, once
  for READY and once for TOTAL.  In \<^verbatim>\<open>lima-vm\<close>: \<open>k \<le> 30\<close>, and \<^verbatim>\<open>docker info\<close> ran once per
  round, and once more to print the versions in the round that found Docker ready.  The
  home directory is a shell word.
\<close>

theorem polling_loops_are_bounded:
  assumes "shell_word h"
  shows "(let t = xtrace (run_create x (waitForK8s h) w); k = times sleep5 t
    in k \<le> 60 \<and> times counting t = (if k < 60 then k + 1 else 60) \<and>
       times listing t = 2 * times counting t) \<and>
   (let t = xtrace (run_create x (limaVm h) w); k = times sleep5 t
    in k \<le> 30 \<and> times docker_info_call t = (if k < 30 then k + 2 else 30))"
  by (rule loops_counted)

text \<open>The Docker loop with a daemon that never comes up: thirty rounds, thirty probes.\<close>

theorem polling_loops_are_bounded_witness:
  "shell_word ''/Users/justin'' \<and>
   times sleep5 (xtrace (run_create docker_down (limaVm ''/Users/justin'') ())) = 30 \<and>
   times docker_info_call (xtrace (run_create docker_down (limaVm ''/Users/justin'') ())) = 30 \<and>
   times sleep5 (xtrace (run_create docker_down (waitForK8s ''/Users/justin'') ())) \<le> 60"
  using polling_loops_are_bounded [OF shell_word_home, of docker_down "()"]
    vm_exhausted_when_down [of "''/Users/justin''"] shell_word_home
  by (simp add: Let_def)

subsection \<open>Exhausted loops\<close>

lemma messages_wait:
  "messages (create (waitForK8s h)) =
     [''Waiting for Kubernetes nodes to be ready...'', ''0'', ''0'', ''All  nodes are ready'',
      ''Waiting for nodes... (/ ready)'', ''Waiting for system pods...'', ''Kubernetes is ready'']"
  by (simp add: waitForK8s_def waitForK8s_create_def nodes_loop_def nodes_round_def
      count_ready_def count_total_def all_ready_def wait_pods_def get_nodes_def
      echo_def echo_w_def run_def cmd_def echoed_def)

lemma no_warning_wait: "\<not> warns (create (waitForK8s h))"
  unfolding warns_def messages_wait by code_simp

lemma messages_vm:
  "messages (create (limaVm h)) =
     [''VM talos-docker already exists, checking status...'',
      ''VM talos-docker is already running'',
      ''Starting existing VM talos-docker...'',
      ''Creating Lima VM talos-docker...'',
      ''Waiting for Docker to be ready...'',
      ''Docker is ready'',
      ''Waiting for Docker... (/30)'']"
  by (simp add: limaVm_def limaVm_create_def ensure_vm_def docker_loop_def
      docker_round_def docker_info_def list_vms_def vmName_def
      echo_def echo_w_def run_def cmd_def echoed_def)

lemma no_warning_vm: "\<not> warns (create (limaVm h))"
  unfolding warns_def messages_vm by code_simp

lemma steps_end_with_last_command:
  "last_exec (xtrace (run_create x (waitForK8s h) w)) =
     Some ([''kubectl'', ''get'', ''nodes'', ''-o'', ''wide''], status (run_create x (waitForK8s h) w)) \<and>
   (times sleep5 (xtrace (run_create x (limaVm h) w)) = 30 \<longrightarrow>
    last_exec (xtrace (run_create x (limaVm h) w)) =
      Some ([''sleep'', ''5''], status (run_create x (limaVm h) w))) \<and>
   \<not> warns (create (waitForK8s h)) \<and> \<not> warns (create (limaVm h))"
proof -
  from vm_summary [of x h w]
  have c: "if times sleep5 (xtrace (run_create x (limaVm h) w)) < 30
       then True
       else last_exec (xtrace (run_create x (limaVm h) w)) =
               Some ([''sleep'', ''5''], status (run_create x (limaVm h) w))"
    by (auto split: if_splits)
  from wait_summary [of x h w]
  have "last_exec (xtrace (run_create x (waitForK8s h) w)) =
     Some ([''kubectl'', ''get'', ''nodes'', ''-o'', ''wide''], status (run_create x (waitForK8s h) w))"
    by blast
  with c no_warning_wait [of h] no_warning_vm [of h] show ?thesis
    by (simp split: if_splits)
qed

text \<open>
  C3, as stated, fails: with a cluster that cannot be reached the node loop is exhausted
  after sixty sleeps, the script prints no warning, and the step exits with status 1,
  the status of its last command \<^verbatim>\<open>kubectl get nodes -o wide\<close>.
\<close>

theorem exhausted_wait_fails_without_warning:
  "times sleep5 (xtrace (run_create kubectl_down (waitForK8s ''/Users/justin'') ())) = 60 \<and>
   status (run_create kubectl_down (waitForK8s ''/Users/justin'') ()) = 1 \<and>
   \<not> warns (create (waitForK8s ''/Users/justin''))"
  using wait_exhausted_when_down [of "''/Users/justin''"] no_warning_wait [of "''/Users/justin''"]
  by simp

text \<open>
  C3, amended: an exhausted loop does not by itself fail its step, and the script goes on
  with what follows the loop.  \<^verbatim>\<open>wait-for-kubernetes\<close> always ends with the status of its
  final \<^verbatim>\<open>kubectl get nodes -o wide\<close>; \<^verbatim>\<open>lima-vm\<close>, whose loop is its last command, ends
  after thirty sleeps with the status of the last \<^verbatim>\<open>sleep\<close>.  Neither script has a warning
  among its messages.  The step after \<^verbatim>\<open>wait-for-kubernetes\<close> runs exactly when
  \<^verbatim>\<open>wait-for-kubernetes\<close> succeeded, which it did exactly when its script ended with
  status 0, and the step after \<^verbatim>\<open>lima-vm\<close> runs exactly when \<^verbatim>\<open>lima-vm\<close> succeeded.  The
  home directory is a shell word.
\<close>

theorem exhaustion_is_not_a_failure_of_the_loop:
  assumes "shell_word h"
  shows "last_exec (xtrace (run_create x (waitForK8s h) w)) =
     Some ([''kubectl'', ''get'', ''nodes'', ''-o'', ''wide''], status (run_create x (waitForK8s h) w)) \<and>
   (times sleep5 (xtrace (run_create x (limaVm h) w)) = 30 \<longrightarrow>
    last_exec (xtrace (run_create x (limaVm h) w)) =
      Some ([''sleep'', ''5''], status (run_create x (limaVm h) w))) \<and>
   \<not> warns (create (waitForK8s h)) \<and> \<not> warns (create (limaVm h)) \<and>
   (snd (outcomes (pulumi_up x (registered h) w) ! 4) \<noteq> Skipped) =
     (snd (outcomes (pulumi_up x (registered h) w) ! 3) = Succeeded) \<and>
   (snd (outcomes (pulumi_up x (registered h) w) ! 3) \<noteq> Skipped \<longrightarrow>
     (\<exists>w'. snd (outcomes (pulumi_up x (registered h) w) ! 3) =
        (if status (run_create x (waitForK8s h) w') = 0 then Succeeded else Failed))) \<and>
   (snd (outcomes (pulumi_up x (registered_vm h) w) ! 6) \<noteq> Skipped) =
     (snd (outcomes (pulumi_up x (registered_vm h) w) ! 5) = Succeeded) \<and>
   (snd (outcomes (pulumi_up x (registered_vm h) w) ! 3) \<noteq> Skipped) =
     (snd (outcomes (pulumi_up x (registered_vm h) w) ! 2) = Succeeded)"
  using steps_end_with_last_command [of x h w] pipeline_main(6,7,8) [of x h w]
    pipeline_vm [of x h w]
  by blast

lemma pipeline_when_down:
  "snd (outcomes (pulumi_up kubectl_down (registered ''/Users/justin'') ()) ! 3) = Failed"
  "snd (outcomes (pulumi_up kubectl_down (registered ''/Users/justin'') ()) ! 4) = Skipped"
proof -
  let ?h = "''/Users/justin''"
  let ?os = "outcomes (pulumi_up kubectl_down (registered ?h) ())"
  have s: "status (run_create kubectl_down (createTalosDir ?h) ()) = 0"
    "status (run_create kubectl_down (createCluster ?h) ()) = 0"
    "status (run_create kubectl_down (exportKubeconfig ?h) ()) = 0"
    by code_simp+
  have s3: "status (run_create kubectl_down (waitForK8s ?h) ()) = 1"
    using wait_exhausted_when_down [of ?h] by simp
  from pipeline_main(1) [of kubectl_down ?h "()"] s(1)
  have o0: "snd (?os ! 0) = Succeeded" by auto
  with pipeline_main(2,3) [of kubectl_down ?h "()"] s(2)
  have o1: "snd (?os ! 1) = Succeeded" by auto
  with pipeline_main(4,5) [of kubectl_down ?h "()"] s(3)
  have o2: "snd (?os ! 2) = Succeeded" by auto
  with pipeline_main(6,7) [of kubectl_down ?h "()"] s3
  show o3: "snd (?os ! 3) = Failed" by auto
  with pipeline_main(8) [of kubectl_down ?h "()"]
  show "snd (?os ! 4) = Skipped" by simp
qed

text \<open>
  The exhausted Docker loop, with a daemon that never comes up, and the pipeline of
  \<^verbatim>\<open>main.go\<close> with a cluster that cannot be reached: \<^verbatim>\<open>wait-for-kubernetes\<close> fails and the
  hardening step is not run.
\<close>

theorem exhaustion_is_not_a_failure_of_the_loop_witness:
  "shell_word ''/Users/justin'' \<and>
   times sleep5 (xtrace (run_create docker_down (limaVm ''/Users/justin'') ())) = 30 \<and>
   last_exec (xtrace (run_create docker_down (limaVm ''/Users/justin'') ())) =
      Some ([''sleep'', ''5''], status (run_create docker_down (limaVm ''/Users/justin'') ())) \<and>
   snd (outcomes (pulumi_up kubectl_down (registered ''/Users/justin'') ()) ! 3) = Failed \<and>
   (\<exists>w'. snd (outcomes (pulumi_up kubectl_down (registered ''/Users/justin'') ()) ! 3) =
      (if status (run_create kubectl_down (waitForK8s ''/Users/justin'') w') = 0
       then Succeeded else Failed)) \<and>
   snd (outcomes (pulumi_up kubectl_down (registered ''/Users/justin'') ()) ! 4) = Skipped"
  using exhaustion_is_not_a_failure_of_the_loop [OF shell_word_home, of docker_down "()"]
    exhaustion_is_not_a_failure_of_the_loop [OF shell_word_home, of kubectl_down "()"]
    vm_exhausted_when_down [of "''/Users/justin''"] pipeline_when_down shell_word_home
  by simp

subsection \<open>The effect of single commands on a trace\<close>

lemma call_env_start_1: "call_env (start w [(k, v)]) [] = [(k, v)]"
  by (simp add: call_env_def lookup_def)

lemma call_env_start_2: "k \<noteq> k' \<Longrightarrow> call_env (start w [(k, v), (k', v')]) [] = [(k, v), (k', v')]"
  by (auto simp add: call_env_def lookup_def)

lemma call_env_start_0: "call_env (start w []) [] = []"
  by (simp add: call_env_def)

lemma submitted_append: "submitted (t @ u) = submitted t @ submitted u"
  by (induction t rule: submitted.induct) simp_all

lemma exec_cat_here:
  "exec x \<lparr>pre = [], args = [[Lit ''cat'']], redirs = [Here tag ls]\<rparr> inp s =
     (0, ls, s\<lparr>xtrace := xtrace s @ [Exec \<lparr>argv = [''cat''], input = ls, cenv = call_env s []\<rparr> 0]\<rparr>)"
  by (simp add: exec_def utility_cat Let_def)

lemma eval_Seq_flow: "flow (eval x a s) = Normal \<Longrightarrow> eval x (Seq a b) s = eval x b (eval x a s)"
  by simp

lemma label_effect:
  "flow (eval x (label ns l) s) = flow s"
  "submitted (xtrace (eval x (label ns l) s)) = submitted (xtrace s) @ [labelling (ns, l)]"
  by (simp_all add: label_def eval_run_external submitted_append labelling_def tool_def
      split: prod.splits)

lemma echo_effect:
  "flow (eval x (echo m) s) = flow s"
  "submitted (xtrace (eval x (echo m) s)) = submitted (xtrace s)"
  by (simp_all add: eval_echo submitted_append tool_def)

lemma export_effect:
  "flow (eval x (Export v p) s) = flow s"
  "submitted (xtrace (eval x (Export v p) s)) = submitted (xtrace s)"
  by simp_all

lemma apply_effect:
  "flow (eval x apply_netpol s) = flow s"
  "submitted (xtrace (eval x apply_netpol s)) =
     submitted (xtrace s) @ [([''kubectl'', ''apply'', ''-f'', ''-''], netpol)]"
  by (simp_all add: apply_netpol_def exec_cat_here exec_external submitted_append tool_def
      split: prod.splits)

lemmas effects = label_effect echo_effect export_effect apply_effect

lemma run_effect:
  "external c \<Longrightarrow> flow (eval x (run (c # as)) s) = flow s"
  "external c \<Longrightarrow> commands (xtrace (eval x (run (c # as)) s)) = commands (xtrace s) @ [c # as]"
  by (auto simp add: eval_run_external external_def split: prod.splits)

lemma label_commands:
  "commands (xtrace (eval x (label ns l) s)) =
     commands (xtrace s) @ [[''kubectl'', ''label'', ''namespace'', ns, l, ''--overwrite'']]"
  by (simp add: label_def run_effect)

lemma echo_commands: "commands (xtrace (eval x (echo m) s)) = commands (xtrace s)"
  by (simp add: eval_echo)

lemma export_commands: "commands (xtrace (eval x (Export v p) s)) = commands (xtrace s)"
  by simp

lemma apply_commands:
  "commands (xtrace (eval x apply_netpol s)) =
     commands (xtrace s) @ [[''cat''], [''kubectl'', ''apply'', ''-f'', ''-'']]"
  by (simp add: apply_netpol_def exec_cat_here exec_external split: prod.splits)

lemma probes_first_take: "take 1 (commands t) = [a] \<Longrightarrow> probes_first t = is_probe a"
  by (cases "commands t") (simp_all add: probes_first_def)

lemma is_probe_simps [simp]:
  "\<not> is_probe (''sleep'' # bs)" "\<not> is_probe (''seq'' # bs)" "\<not> is_probe (''kubectl'' # bs)"
  "\<not> is_probe (''mkdir'' # bs)" "\<not> is_probe (''cat'' # bs)"
  "is_probe [''limactl'', ''list'', ''--format'', ''json'']"
  "is_probe [talosctl, ''cluster'', ''show'', ''--name'', clusterName]"
  by (simp_all add: is_probe_def cluster_probe_def talosctl_def)

lemma talosctl_neq [simp]:
  "talosctl \<noteq> ''echo''" "talosctl \<noteq> ''kubectl''" "talosctl \<noteq> ''sleep''"
  "''echo'' \<noteq> talosctl" "''kubectl'' \<noteq> talosctl" "''sleep'' \<noteq> talosctl"
  by (simp_all add: talosctl_def)

lemma extraction_simps [simp]:
  "extraction (talosctl # ''kubeconfig'' # as)"
  "\<not> extraction (''echo'' # bs)" "\<not> extraction (''kubectl'' # bs)" "\<not> extraction (''sleep'' # bs)"
  by (simp_all add: extraction_def subcommand_def)

lemma verification_simps [simp]:
  "verification h [''kubectl'', ''--kubeconfig'', kubeconfigPath h, ''get'', ''nodes'']"
  "\<not> verification h (''echo'' # bs)" "\<not> verification h (talosctl # bs)"
  "\<not> verification h (''sleep'' # bs)"
  by (simp_all add: verification_def)

subsection \<open>The kubeconfig export\<close>

lemma split_on_warning: "split_on nl warning_line = [warning_line]"
  unfolding warning_line_def by code_simp

lemma export_script:
  fixes x :: "'w ext" and h :: string and as :: "string list"
  assumes "flow s = Normal" "xtrace s = []" "stdout s = []"
  defines "r \<equiv> eval x (block [
     echo (''Exporting kubeconfig to '' @ kubeconfigPath h @ ''...''),
     run [''sleep'', ''5''],
     run (talosctl # ''kubeconfig'' # as),
     If (Run [cmd [''kubectl'', ''--kubeconfig'', kubeconfigPath h, ''get'', ''nodes'']
                  [Out_null, Err_out]])
        (block [
           echo ''Kubeconfig exported successfully'',
           run [''kubectl'', ''--kubeconfig'', kubeconfigPath h, ''get'', ''nodes'']])
        (echo warning_line)]) s"
  shows "\<exists>e v. first_status extraction (xtrace r) = Some e \<and>
           first_status (verification h) (xtrace r) = Some v \<and>
           take 1 (commands (xtrace r)) = [[''sleep'', ''5'']] \<and>
           times extraction (xtrace r) = 1 \<and>
           (v \<noteq> 0 \<longrightarrow> status r = 0 \<and> warning_line \<in> set (stdout r) \<and>
              last_exec (xtrace r) = Some ([''echo'', warning_line], 0))"
proof -
  obtain a1 o1 w1 where r1:
    "x (world s) \<lparr>argv = [''sleep'', ''5''], input = [], cenv = call_env s []\<rparr> = (a1, o1, w1)"
    by (metis prod_cases3)
  obtain a2 o2 w2 where r2:
    "x w1 \<lparr>argv = talosctl # ''kubeconfig'' # as, input = [], cenv = call_env s []\<rparr> = (a2, o2, w2)"
    by (metis prod_cases3)
  obtain a3 o3 w3 where r3:
    "x w2 \<lparr>argv = [''kubectl'', ''--kubeconfig'', kubeconfigPath h, ''get'', ''nodes''], input = [],
            cenv = call_env s []\<rparr> = (a3, o3, w3)"
    by (metis prod_cases3)
  obtain a4 o4 w4 where r4:
    "x w3 \<lparr>argv = [''kubectl'', ''--kubeconfig'', kubeconfigPath h, ''get'', ''nodes''], input = [],
            cenv = call_env s []\<rparr> = (a4, o4, w4)"
    by (metis prod_cases3)
  show ?thesis
    unfolding r_def using assms(1-3)
    by (rule_tac x = a2 in exI, rule_tac x = a3 in exI)
       (simp add: eval_echo eval_run_external exec_external r1 r2 r3 r4 Let_def
          split_on_warning)
qed

lemma export_create_eq:
  "run_create x (exportKubeconfig h) w = eval x (block [
     echo (''Exporting kubeconfig to '' @ kubeconfigPath h @ ''...''),
     run [''sleep'', ''5''],
     run (talosctl # ''kubeconfig'' # [kubeconfigPath h, ''--force'', ''--name'', clusterName]),
     If (Run [cmd [''kubectl'', ''--kubeconfig'', kubeconfigPath h, ''get'', ''nodes'']
                  [Out_null, Err_out]])
        (block [
           echo ''Kubeconfig exported successfully'',
           run [''kubectl'', ''--kubeconfig'', kubeconfigPath h, ''get'', ''nodes'']])
        (echo warning_line)]) (start w (environment (exportKubeconfig h)))"
  by (simp add: run_create_def run_script_def exportKubeconfig_def exportKubeconfig_create_def
      warning_line_def)

lemma export_vm_create_eq:
  "run_create x (exportKubeconfig_vm h) w = eval x (block [
     echo (''Exporting kubeconfig to '' @ kubeconfigPath h @ ''...''),
     run [''sleep'', ''5''],
     run (talosctl # ''kubeconfig'' # [kubeconfigPath h, ''--force'']),
     If (Run [cmd [''kubectl'', ''--kubeconfig'', kubeconfigPath h, ''get'', ''nodes'']
                  [Out_null, Err_out]])
        (block [
           echo ''Kubeconfig exported successfully'',
           run [''kubectl'', ''--kubeconfig'', kubeconfigPath h, ''get'', ''nodes'']])
        (echo warning_line)]) (start w (environment (exportKubeconfig_vm h)))"
  by (simp add: run_create_def run_script_def exportKubeconfig_vm_def exportKubeconfig_vm_create_def
      warning_line_def)




subsection \<open>Which steps probe for their target\<close>

lemma unprobed_dir: "\<not> probes_first (xtrace (run_create x (createTalosDir h) w))"
  by (simp add: run_create_def run_script_def createTalosDir_def probes_first_def run_effect)

lemma unprobed_dirs: "\<not> probes_first (xtrace (run_create x (createDirs h) w))"
  by (simp add: run_create_def run_script_def createDirs_def probes_first_def run_effect)

lemma unprobed_config: "\<not> probes_first (xtrace (run_create x createLimaConfig w))"
  by (simp add: run_create_def run_script_def createLimaConfig_def probes_first_def exec_def
      utility_cat Let_def)

lemma unprobed_hardening: "\<not> probes_first (xtrace (run_create x (applySecurityHardening h) w))"
  by (simp add: run_create_def run_script_def applySecurityHardening_def probes_first_def
      applySecurityHardening_create_def eval_Seq_flow effects label_commands echo_commands
      export_commands apply_commands del: eval.simps)

lemma unprobed_hardening_vm: "\<not> probes_first (xtrace (run_create x (applySecurityHardening_vm h) w))"
  by (simp add: run_create_def run_script_def applySecurityHardening_vm_def probes_first_def
      applySecurityHardening_vm_create_def eval_Seq_flow effects label_commands echo_commands
      export_commands apply_commands del: eval.simps)

lemma unprobed_verify: "\<not> probes_first (xtrace (run_create x (verifyCluster h) w))"
  by (simp add: run_create_def run_script_def verifyCluster_def probes_first_def
      verifyCluster_create_def eval_Seq_flow effects echo_commands
      export_commands run_effect del: eval.simps)

lemma unprobed_verify_vm: "\<not> probes_first (xtrace (run_create x (verifyCluster_vm h) w))"
  by (simp add: run_create_def run_script_def verifyCluster_vm_def probes_first_def
      verifyCluster_vm_create_def eval_Seq_flow effects echo_commands
      export_commands run_effect del: eval.simps)

lemma unprobed_wait: "\<not> probes_first (xtrace (run_create x (waitForK8s h) w))"
  using wait_summary [of x h w] by (auto simp: probes_first_take)

lemma unprobed_export:
  "\<not> probes_first (xtrace (run_create x (exportKubeconfig h) w))"
  "times extraction (xtrace (run_create x (exportKubeconfig h) w)) = 1"
  using export_script [of "start w (environment (exportKubeconfig h))" x h
      "[kubeconfigPath h, ''--force'', ''--name'', clusterName]"]
  unfolding export_create_eq by (auto simp: probes_first_take)

lemma unprobed_export_vm:
  "\<not> probes_first (xtrace (run_create x (exportKubeconfig_vm h) w))"
  "times extraction (xtrace (run_create x (exportKubeconfig_vm h) w)) = 1"
  using export_script [of "start w (environment (exportKubeconfig_vm h))" x h
      "[kubeconfigPath h, ''--force'']"]
  unfolding export_vm_create_eq by (auto simp: probes_first_take)

lemma creation_simps [simp]:
  "\<not> cluster_creation (''echo'' # bs)"
  "\<not> cluster_creation [talosctl, ''cluster'', ''show'', ''--name'', clusterName]"
  "cluster_creation (talosctl # ''cluster'' # ''create'' # bs)"
  "\<not> cluster_probe (''echo'' # bs)"
  "cluster_probe [talosctl, ''cluster'', ''show'', ''--name'', clusterName]"
  "\<not> cluster_probe (talosctl # ''cluster'' # ''create'' # bs)"
  by (simp_all add: cluster_creation_def cluster_probe_def subcommand_def)

lemma cluster_script:
  fixes x :: "'w ext"
  assumes "flow s = Normal" "xtrace s = []"
  shows "\<exists>g. probes_first (xtrace (eval x createCluster_create s)) \<and>
     first_status cluster_probe (xtrace (eval x createCluster_create s)) = Some g \<and>
     (if g = 0
      then times cluster_creation (xtrace (eval x createCluster_create s)) = 0 \<and>
           status (eval x createCluster_create s) = 0
      else times cluster_creation (xtrace (eval x createCluster_create s)) = 1)"
proof -
  obtain a1 o1 w1 where r1:
    "x (world s) \<lparr>argv = [talosctl, ''cluster'', ''show'', ''--name'', clusterName], input = [],
       cenv = call_env s []\<rparr> = (a1, o1, w1)"
    by (metis prod_cases3)
  obtain a2 o2 w2 where r2:
    "x w1 \<lparr>argv = [talosctl, ''cluster'', ''create'', ''--name'', clusterName,
          ''--controlplanes'', ''1'', ''--workers'', ''2'', ''--wait'', ''--wait-timeout'', ''10m''],
       input = [], cenv = call_env s []\<rparr> = (a2, o2, w2)"
    by (metis prod_cases3)
  show ?thesis
    using assms
    by (rule_tac x = a1 in exI)
       (simp add: createCluster_create_def eval_echo eval_run_external exec_external r1 r2 Let_def
          probes_first_def)
qed

lemma probing_steps:
  "(let r = run_create x (createCluster h) w; t = xtrace r
    in probes_first t \<and>
       (first_status cluster_probe t = Some 0 \<longrightarrow> times cluster_creation t = 0 \<and> status r = 0) \<and>
       (first_status cluster_probe t \<noteq> Some 0 \<longrightarrow> times cluster_creation t = 1)) \<and>
   (let r = run_create x (createCluster_vm h) w; t = xtrace r
    in probes_first t \<and>
       (first_status cluster_probe t = Some 0 \<longrightarrow> times cluster_creation t = 0 \<and> status r = 0) \<and>
       (first_status cluster_probe t \<noteq> Some 0 \<longrightarrow> times cluster_creation t = 1)) \<and>
   (let t = xtrace (run_create x (limaVm h) w)
    in probes_first t \<and>
       (first_status vm_probe t = Some 0 \<longrightarrow> times vm_creation t = 0) \<and>
       (first_status vm_probe t \<noteq> Some 0 \<longrightarrow> times vm_creation t = 1)) \<and>
   list_all (\<lambda>c. \<not> probes_first (xtrace (run_create x c w))) (unprobed h) \<and>
   times extraction (xtrace (run_create x (exportKubeconfig h) w)) = 1 \<and>
   times extraction (xtrace (run_create x (exportKubeconfig_vm h) w)) = 1"
proof -
  have a: "let r = run_create x (createCluster h) w; t = xtrace r
    in probes_first t \<and>
       (first_status cluster_probe t = Some 0 \<longrightarrow> times cluster_creation t = 0 \<and> status r = 0) \<and>
       (first_status cluster_probe t \<noteq> Some 0 \<longrightarrow> times cluster_creation t = 1)"
    using cluster_script [of "start w (environment (createCluster h))" x]
    by (auto simp: Let_def run_create_def run_script_def createCluster_def)
  have b: "let r = run_create x (createCluster_vm h) w; t = xtrace r
    in probes_first t \<and>
       (first_status cluster_probe t = Some 0 \<longrightarrow> times cluster_creation t = 0 \<and> status r = 0) \<and>
       (first_status cluster_probe t \<noteq> Some 0 \<longrightarrow> times cluster_creation t = 1)"
    using cluster_script [of "start w (environment (createCluster_vm h))" x]
    by (auto simp: Let_def run_create_def run_script_def createCluster_vm_def
        createCluster_vm_create_def createCluster_create_def)
  have c: "let t = xtrace (run_create x (limaVm h) w)
    in probes_first t \<and>
       (first_status vm_probe t = Some 0 \<longrightarrow> times vm_creation t = 0) \<and>
       (first_status vm_probe t \<noteq> Some 0 \<longrightarrow> times vm_creation t = 1)"
  proof -
    from vm_summary [of x h w] obtain g where g:
      "take 2 (commands (xtrace (run_create x (limaVm h) w))) =
         [[''limactl'', ''list'', ''--format'', ''json''], [''grep'', ''-q'', vm_entry]]"
      "first_status vm_probe (xtrace (run_create x (limaVm h) w)) = Some g"
      "times vm_creation (xtrace (run_create x (limaVm h) w)) = (if g = 0 then 0 else 1)"
      by blast
    have "probes_first (xtrace (run_create x (limaVm h) w))"
      using g(1) by (cases "commands (xtrace (run_create x (limaVm h) w))")
        (auto simp: probes_first_def)
    with g(2,3) show ?thesis by (auto simp: Let_def)
  qed
  have d: "list_all (\<lambda>c. \<not> probes_first (xtrace (run_create x c w))) (unprobed h)"
    by (simp add: unprobed_def unprobed_dir unprobed_dirs unprobed_config unprobed_hardening
        unprobed_hardening_vm unprobed_verify unprobed_verify_vm unprobed_wait unprobed_export
        unprobed_export_vm)
  show ?thesis
    by (intro conjI a b c d unprobed_export(2) unprobed_export_vm(2))
qed

text \<open>
  C1, as stated, fails: not every step probes.  Where everything is in place already
  (environment \<open>present\<close>) the create script of \<^verbatim>\<open>export-kubeconfig\<close> starts with no probe,
  runs the extraction again, and succeeds.
\<close>

theorem export_step_probes_nothing:
  "\<not> probes_first (xtrace (run_create present (exportKubeconfig_vm ''/Users/justin'') ())) \<and>
   times extraction (xtrace (run_create present (exportKubeconfig_vm ''/Users/justin'') ())) = 1 \<and>
   status (run_create present (exportKubeconfig_vm ''/Users/justin'') ()) = 0"
  by code_simp

text \<open>
  C1, amended: the cluster step of both programs and \<^verbatim>\<open>lima-vm\<close> start with a probe for
  their target.  When \<^verbatim>\<open>talosctl cluster show\<close> succeeds the cluster step exits with
  status 0 and does not run \<^verbatim>\<open>cluster create\<close>, and otherwise it runs it once; when the
  registry lists the machine \<^verbatim>\<open>lima-vm\<close> does not run \<^verbatim>\<open>limactl create\<close>, and otherwise it
  runs it once.  No other step starts with a probe, and \<^verbatim>\<open>export-kubeconfig\<close> extracts
  the kubeconfig on every run.  The home directory is a shell word.
\<close>

theorem steps_that_probe:
  assumes "shell_word h"
  shows "(let r = run_create x (createCluster h) w; t = xtrace r
    in probes_first t \<and>
       (first_status cluster_probe t = Some 0 \<longrightarrow> times cluster_creation t = 0 \<and> status r = 0) \<and>
       (first_status cluster_probe t \<noteq> Some 0 \<longrightarrow> times cluster_creation t = 1)) \<and>
   (let r = run_create x (createCluster_vm h) w; t = xtrace r
    in probes_first t \<and>
       (first_status cluster_probe t = Some 0 \<longrightarrow> times cluster_creation t = 0 \<and> status r = 0) \<and>
       (first_status cluster_probe t \<noteq> Some 0 \<longrightarrow> times cluster_creation t = 1)) \<and>
   (let t = xtrace (run_create x (limaVm h) w)
    in probes_first t \<and>
       (first_status vm_probe t = Some 0 \<longrightarrow> times vm_creation t = 0) \<and>
       (first_status vm_probe t \<noteq> Some 0 \<longrightarrow> times vm_creation t = 1)) \<and>
   list_all (\<lambda>c. \<not> probes_first (xtrace (run_create x c w))) (unprobed h) \<and>
   times extraction (xtrace (run_create x (exportKubeconfig h) w)) = 1 \<and>
   times extraction (xtrace (run_create x (exportKubeconfig_vm h) w)) = 1"
  by (rule probing_steps)

text \<open>The probing steps where the targets exist, and where they do not.\<close>

theorem steps_that_probe_witness:
  "shell_word ''/Users/justin'' \<and>
   first_status cluster_probe (xtrace (run_create present (createCluster ''/Users/justin'') ())) = Some 0 \<and>
   times cluster_creation (xtrace (run_create present (createCluster ''/Users/justin'') ())) = 0 \<and>
   status (run_create present (createCluster ''/Users/justin'') ()) = 0 \<and>
   first_status cluster_probe (xtrace (run_create absent (createCluster ''/Users/justin'') ())) = Some 1 \<and>
   times cluster_creation (xtrace (run_create absent (createCluster ''/Users/justin'') ())) = 1 \<and>
   first_status vm_probe (xtrace (run_create present (limaVm ''/Users/justin'') ())) = Some 0 \<and>
   times vm_creation (xtrace (run_create present (limaVm ''/Users/justin'') ())) = 0 \<and>
   first_status vm_probe (xtrace (run_create absent (limaVm ''/Users/justin'') ())) = Some 1 \<and>
   times vm_creation (xtrace (run_create absent (limaVm ''/Users/justin'') ())) = 1"
proof -
  have p: "first_status cluster_probe (xtrace (run_create present (createCluster ''/Users/justin'') ())) = Some 0"
    "first_status vm_probe (xtrace (run_create present (limaVm ''/Users/justin'') ())) = Some 0"
    by code_simp+
  have q: "first_status cluster_probe (xtrace (run_create absent (createCluster ''/Users/justin'') ())) = Some 1"
    "first_status vm_probe (xtrace (run_create absent (limaVm ''/Users/justin'') ())) = Some 1"
    by code_simp+
  from p q steps_that_probe [OF shell_word_home, where x = present and w = "()"]
    steps_that_probe [OF shell_word_home, where x = absent and w = "()"] shell_word_home
  show ?thesis by (simp add: Let_def)
qed

subsection \<open>Delete actions\<close>

lemma status_rm:
  "status (eval x (run [''rm'', ''-f'', p]) (start w env)) = fst (x w (rm_f p (call_env (start w env) [])))"
  by (simp add: eval_run_external rm_f_def split: prod.splits)

lemma destroy_status:
  "status (eval x createCluster_delete (start w env)) = 0"
proof -
  obtain a o' w' where r:
    "x w \<lparr>argv = [talosctl, ''cluster'', ''destroy'', ''--name'', clusterName], input = [],
           cenv = call_env (start w env) []\<rparr> = (a, o', w')"
    by (metis prod_cases3)
  show ?thesis
    by (cases "a = 0") (simp_all add: createCluster_delete_def eval_echo exec_external eval_true r)
qed

lemma vm_delete_status:
  "status (eval x limaVm_delete (start w env)) = 0"
proof -
  obtain a1 o1 w1 where r1:
    "x w \<lparr>argv = [''limactl'', ''stop'', vmName], input = [],
           cenv = call_env (start w env) []\<rparr> = (a1, o1, w1)"
    by (metis prod_cases3)
  obtain a2 o2 w2 where r2:
    "x w1 \<lparr>argv = [''limactl'', ''delete'', vmName, ''--force''], input = [],
           cenv = call_env (start w env) []\<rparr> = (a2, o2, w2)"
    by (metis prod_cases3)
  show ?thesis
    by (cases "a1 = 0"; cases "a2 = 0")
       (simp_all add: limaVm_delete_def eval_echo exec_external eval_true r1 r2)
qed

lemma delete_statuses:
  "with_delete (registered h) = [''create-talos-cluster'', ''export-kubeconfig''] \<and>
   with_delete (registered_vm h) =
     [''create-lima-config'', ''lima-vm'', ''create-talos-cluster'', ''export-kubeconfig''] \<and>
   delete_status x (createCluster h) w = Some 0 \<and>
   delete_status x (createCluster_vm h) w = Some 0 \<and>
   delete_status x (limaVm h) w = Some 0 \<and>
   delete_status x (exportKubeconfig h) w =
     Some (fst (x w (rm_f (kubeconfigPath h) (environment (exportKubeconfig h))))) \<and>
   delete_status x (exportKubeconfig_vm h) w =
     Some (fst (x w (rm_f (kubeconfigPath h) (environment (exportKubeconfig_vm h))))) \<and>
   delete_status x createLimaConfig w = Some (fst (x w (rm_f limaConfigPath [])))"
proof -
  have a: "with_delete (registered h) = [''create-talos-cluster'', ''export-kubeconfig'']"
    by (simp add: with_delete_def registered_def createTalosDir_def createCluster_def
        exportKubeconfig_def waitForK8s_def applySecurityHardening_def verifyCluster_def)
  have b: "with_delete (registered_vm h) =
     [''create-lima-config'', ''lima-vm'', ''create-talos-cluster'', ''export-kubeconfig'']"
    by (simp add: with_delete_def registered_vm_def createDirs_def createLimaConfig_def
        limaVm_def createCluster_vm_def exportKubeconfig_vm_def waitForK8s_def
        applySecurityHardening_vm_def verifyCluster_vm_def)
  have c: "delete_status x (createCluster h) w = Some 0"
    by (simp add: delete_status_def run_delete_def run_script_def createCluster_def destroy_status)
  have d: "delete_status x (createCluster_vm h) w = Some 0"
    using destroy_status [of x w "vm_environment h"]
    by (simp add: delete_status_def run_delete_def run_script_def createCluster_vm_def
        createCluster_vm_delete_def createCluster_delete_def)
  have e: "delete_status x (limaVm h) w = Some 0"
    by (simp add: delete_status_def run_delete_def run_script_def limaVm_def vm_delete_status)
  have f: "delete_status x (exportKubeconfig h) w =
     Some (fst (x w (rm_f (kubeconfigPath h) (environment (exportKubeconfig h)))))"
    by (simp add: delete_status_def run_delete_def run_script_def exportKubeconfig_def status_rm
        call_env_start_1)
  have g: "delete_status x (exportKubeconfig_vm h) w =
     Some (fst (x w (rm_f (kubeconfigPath h) (environment (exportKubeconfig_vm h)))))"
    by (simp add: delete_status_def run_delete_def run_script_def exportKubeconfig_vm_def status_rm
        call_env_start_2 vm_environment_def)
  have i: "delete_status x createLimaConfig w = Some (fst (x w (rm_f limaConfigPath [])))"
    by (simp add: delete_status_def run_delete_def run_script_def createLimaConfig_def status_rm
        call_env_start_0)
  from a b c d e f g i show ?thesis by simp
qed

text \<open>
  C5, as stated, fails: the delete action of \<^verbatim>\<open>export-kubeconfig\<close> is the single command
  \<^verbatim>\<open>rm -f\<close>, and when that fails the delete action exits with its status.
\<close>

theorem failed_removal_fails_the_delete:
  "delete_status rm_fails (exportKubeconfig ''/Users/justin'') () = Some 1"
  by code_simp

text \<open>
  C5, amended: the delete actions of the cluster step and of \<^verbatim>\<open>lima-vm\<close> exit with
  status 0 whatever their cleanup commands answer; the delete actions of
  \<^verbatim>\<open>export-kubeconfig\<close> and \<^verbatim>\<open>create-lima-config\<close> exit with the status of their
  \<^verbatim>\<open>rm -f\<close>.  No other step declares a delete action.  The home directory is a shell
  word.
\<close>

theorem delete_actions:
  assumes "shell_word h"
  shows "with_delete (registered h) = [''create-talos-cluster'', ''export-kubeconfig''] \<and>
   with_delete (registered_vm h) =
     [''create-lima-config'', ''lima-vm'', ''create-talos-cluster'', ''export-kubeconfig''] \<and>
   delete_status x (createCluster h) w = Some 0 \<and>
   delete_status x (createCluster_vm h) w = Some 0 \<and>
   delete_status x (limaVm h) w = Some 0 \<and>
   delete_status x (exportKubeconfig h) w =
     Some (fst (x w (rm_f (kubeconfigPath h) (environment (exportKubeconfig h))))) \<and>
   delete_status x (exportKubeconfig_vm h) w =
     Some (fst (x w (rm_f (kubeconfigPath h) (environment (exportKubeconfig_vm h))))) \<and>
   delete_status x createLimaConfig w = Some (fst (x w (rm_f limaConfigPath [])))"
  by (rule delete_statuses)

text \<open>Where \<^verbatim>\<open>rm\<close> fails: the cluster is destroyed with status 0, the file removal fails.\<close>

theorem delete_actions_witness:
  "shell_word ''/Users/justin'' \<and>
   delete_status rm_fails (createCluster ''/Users/justin'') () = Some 0 \<and>
   delete_status rm_fails (limaVm ''/Users/justin'') () = Some 0 \<and>
   delete_status rm_fails (exportKubeconfig ''/Users/justin'') () = Some 1 \<and>
   delete_status rm_fails createLimaConfig () = Some 1"
proof -
  have "fst (rm_fails () (rm_f (kubeconfigPath ''/Users/justin'')
           (environment (exportKubeconfig ''/Users/justin'')))) = 1"
    "fst (rm_fails () (rm_f limaConfigPath [])) = 1"
    by (simp_all add: rm_fails_def rm_f_def tool_def)
  with delete_actions [OF shell_word_home, where x = rm_fails and w = "()"] shell_word_home
  show ?thesis by simp
qed

subsection \<open>The hardening payload\<close>

lemma hardening_calls:
  "submitted (xtrace (run_create x (applySecurityHardening h) w)) =
     map labelling
       [(''kube-system'', ''pod-security.kubernetes.io/enforce=privileged''),
        (''kube-system'', ''pod-security.kubernetes.io/warn=baseline''),
        (''default'', ''pod-security.kubernetes.io/enforce=restricted''),
        (''default'', ''pod-security.kubernetes.io/warn=restricted'')] @
     [([''kubectl'', ''apply'', ''-f'', ''-''], netpol)] \<and>
   submitted (xtrace (run_create x (applySecurityHardening_vm h) w)) =
     submitted (xtrace (run_create x (applySecurityHardening h) w)) \<and>
   length (filter (\<lambda>l. l = ''kind: NetworkPolicy'') netpol) = 2 \<and>
   length (filter (\<lambda>l. l = ''---'') netpol) = 1"
proof -
  have a: "submitted (xtrace (run_create x (applySecurityHardening h) w)) =
     map labelling
       [(''kube-system'', ''pod-security.kubernetes.io/enforce=privileged''),
        (''kube-system'', ''pod-security.kubernetes.io/warn=baseline''),
        (''default'', ''pod-security.kubernetes.io/enforce=restricted''),
        (''default'', ''pod-security.kubernetes.io/warn=restricted'')] @
     [([''kubectl'', ''apply'', ''-f'', ''-''], netpol)]"
    by (simp add: run_create_def run_script_def applySecurityHardening_def
        applySecurityHardening_create_def eval_Seq_flow effects del: eval.simps)
  have b: "submitted (xtrace (run_create x (applySecurityHardening_vm h) w)) =
     map labelling
       [(''kube-system'', ''pod-security.kubernetes.io/enforce=privileged''),
        (''kube-system'', ''pod-security.kubernetes.io/warn=baseline''),
        (''default'', ''pod-security.kubernetes.io/enforce=restricted''),
        (''default'', ''pod-security.kubernetes.io/warn=restricted'')] @
     [([''kubectl'', ''apply'', ''-f'', ''-''], netpol)]"
    by (simp add: run_create_def run_script_def applySecurityHardening_vm_def
        applySecurityHardening_vm_create_def eval_Seq_flow effects del: eval.simps)
  have c: "length (filter (\<lambda>l. l = ''kind: NetworkPolicy'') netpol) = 2"
    "length (filter (\<lambda>l. l = ''---'') netpol) = 1"
    by (simp_all add: netpol_def)
  from a b c show ?thesis by simp
qed

text \<open>
  C7, as stated, fails: the step labels four times, two labels on each of two
  namespaces.
\<close>

theorem hardening_labels_four_times:
  "times label_call (xtrace (run_create present (applySecurityHardening ''/Users/justin'') ())) = 4"
  by code_simp

text \<open>
  C7, amended: in every environment and for every home directory that is a shell word
  the step of both
  programs hands \<^verbatim>\<open>kubectl\<close> the same calls: four \<^verbatim>\<open>label --overwrite\<close> operations, then
  one \<^verbatim>\<open>apply\<close> that reads the manifest of two NetworkPolicy objects, whatever the calls
  before answered.
\<close>

theorem hardening_payload:
  assumes "shell_word h"
  shows "submitted (xtrace (run_create x (applySecurityHardening h) w)) =
     map labelling
       [(''kube-system'', ''pod-security.kubernetes.io/enforce=privileged''),
        (''kube-system'', ''pod-security.kubernetes.io/warn=baseline''),
        (''default'', ''pod-security.kubernetes.io/enforce=restricted''),
        (''default'', ''pod-security.kubernetes.io/warn=restricted'')] @
     [([''kubectl'', ''apply'', ''-f'', ''-''], netpol)] \<and>
   submitted (xtrace (run_create x (applySecurityHardening_vm h) w)) =
     submitted (xtrace (run_create x (applySecurityHardening h) w)) \<and>
   length (filter (\<lambda>l. l = ''kind: NetworkPolicy'') netpol) = 2 \<and>
   length (filter (\<lambda>l. l = ''---'') netpol) = 1"
  by (rule hardening_calls)

text \<open>With a cluster that cannot be reached all five calls are made all the same.\<close>

theorem hardening_payload_witness:
  "shell_word ''/Users/justin'' \<and>
   map fst (submitted (xtrace (run_create kubectl_down (applySecurityHardening ''/Users/justin'') ()))) =
     [[''kubectl'', ''label'', ''namespace'', ''kube-system'',
       ''pod-security.kubernetes.io/enforce=privileged'', ''--overwrite''],
      [''kubectl'', ''label'', ''namespace'', ''kube-system'',
       ''pod-security.kubernetes.io/warn=baseline'', ''--overwrite''],
      [''kubectl'', ''label'', ''namespace'', ''default'',
       ''pod-security.kubernetes.io/enforce=restricted'', ''--overwrite''],
      [''kubectl'', ''label'', ''namespace'', ''default'',
       ''pod-security.kubernetes.io/warn=restricted'', ''--overwrite''],
      [''kubectl'', ''apply'', ''-f'', ''-'']]"
  using hardening_payload [OF shell_word_home, where x = kubectl_down and w = "()"] shell_word_home
  by (simp add: labelling_def)

subsection \<open>The cluster step of the two programs\<close>

lemma create_lines: "code_lines createCluster_create_text = code_lines createCluster_vm_create_text"
  by code_simp

lemma create_diff:
  "differing_lines createCluster_create_text createCluster_vm_create_text =
     [(tabs 4 @ ''# 1 control-plane + 2 workers for HA testing'',
       tabs 4 @ ''# 1 control-plane + 2 workers'')]"
  by code_simp

lemma create_length:
  "length (split_on nl createCluster_create_text) = length (split_on nl createCluster_vm_create_text)"
  by code_simp

lemma create_code:
  \<open>map (dropWhile is_space) (code_lines createCluster_create_text) =
     [''if /opt/homebrew/bin/talosctl cluster show --name talos-local >/dev/null 2>&1; then'',
      ''echo "Talos cluster '' @ quoted ''talos-local'' @ '' already exists"'',
      ''exit 0'',
      ''fi'',
      ''echo "Creating Talos cluster '' @ quoted ''talos-local'' @ ''..."'',
      ''/opt/homebrew/bin/talosctl cluster create '' @ [bslash],
      ''--name talos-local '' @ [bslash],
      ''--controlplanes 1 '' @ [bslash],
      ''--workers 2 '' @ [bslash],
      ''--wait '' @ [bslash],
      ''--wait-timeout 10m'',
      ''echo "Talos cluster '' @ quoted ''talos-local'' @ '' created successfully"'']\<close>
  by code_simp

lemma delete_code:
  \<open>map (dropWhile is_space) (code_lines createCluster_delete_text) =
     [''echo "Destroying Talos cluster '' @ quoted ''talos-local'' @ ''..."'',
      ''/opt/homebrew/bin/talosctl cluster destroy --name talos-local 2>/dev/null || true'',
      ''echo "Talos cluster '' @ quoted ''talos-local'' @ '' destroyed"'']\<close>
  by code_simp

text \<open>
  C8, as stated, fails: the create scripts of the two programs are not the same text.
\<close>

theorem cluster_scripts_differ_in_a_comment:
  "createCluster_create_text \<noteq> createCluster_vm_create_text"
  by code_simp

text \<open>
  C8, amended: the delete scripts are the same text, and the create scripts differ in one
  comment line only, so that the shell reads the same commands: the probe for
  \<^verbatim>\<open>talos-local\<close>, the creation with one control plane, two workers and a wait of ten
  minutes, and the destruction with its errors suppressed.  The step of the program with
  the virtual machine differs in the environment, which has \<^verbatim>\<open>DOCKER_HOST\<close> in addition, and
  in the step it depends on.
\<close>

theorem cluster_step_of_both_programs:
  \<open>createCluster_delete_text = createCluster_vm_delete_text \<and>
   code_lines createCluster_create_text = code_lines createCluster_vm_create_text \<and>
   length (split_on nl createCluster_create_text) =
     length (split_on nl createCluster_vm_create_text) \<and>
   differing_lines createCluster_create_text createCluster_vm_create_text =
     [(tabs 4 @ ''# 1 control-plane + 2 workers for HA testing'',
       tabs 4 @ ''# 1 control-plane + 2 workers'')] \<and>
   map (dropWhile is_space) (code_lines createCluster_create_text) =
     [''if /opt/homebrew/bin/talosctl cluster show --name talos-local >/dev/null 2>&1; then'',
      ''echo "Talos cluster '' @ quoted ''talos-local'' @ '' already exists"'',
      ''exit 0'',
      ''fi'',
      ''echo "Creating Talos cluster '' @ quoted ''talos-local'' @ ''..."'',
      ''/opt/homebrew/bin/talosctl cluster create '' @ [bslash],
      ''--name talos-local '' @ [bslash],
      ''--controlplanes 1 '' @ [bslash],
      ''--workers 2 '' @ [bslash],
      ''--wait '' @ [bslash],
      ''--wait-timeout 10m'',
      ''echo "Talos cluster '' @ quoted ''talos-local'' @ '' created successfully"''] \<and>
   map (dropWhile is_space) (code_lines createCluster_delete_text) =
     [''echo "Destroying Talos cluster '' @ quoted ''talos-local'' @ ''..."'',
      ''/opt/homebrew/bin/talosctl cluster destroy --name talos-local 2>/dev/null || true'',
      ''echo "Talos cluster '' @ quoted ''talos-local'' @ '' destroyed"''] \<and>
   createCluster_vm h =
     (createCluster h)
       \<lparr>environment := environment (createCluster h) @ [(''DOCKER_HOST'', dockerHost h)],
        depends_on := [''lima-vm'']\<rparr>\<close>
proof -
  have a: "createCluster_delete_text = createCluster_vm_delete_text"
    by (simp add: createCluster_delete_text_def createCluster_vm_delete_text_def
        createCluster_delete_format_def createCluster_vm_delete_format_def)
  have b: "createCluster_vm h =
     (createCluster h)
       \<lparr>environment := environment (createCluster h) @ [(''DOCKER_HOST'', dockerHost h)],
        depends_on := [''lima-vm'']\<rparr>"
    by (simp add: createCluster_vm_def createCluster_def vm_environment_def
        createCluster_vm_create_def createCluster_create_def
        createCluster_vm_delete_def createCluster_delete_def)
  from a b create_lines create_diff create_length create_code delete_code
  show ?thesis by blast
qed

subsection \<open>The dependency graph\<close>

lemma graph_main:
  "graph (registered h) =
     [(''create-talos-dir'', []),
      (''create-talos-cluster'', [''create-talos-dir'']),
      (''export-kubeconfig'', [''create-talos-cluster'']),
      (''wait-for-kubernetes'', [''export-kubeconfig'']),
      (''apply-security-hardening'', [''wait-for-kubernetes'']),
      (''verify-cluster'', [''apply-security-hardening''])]"
  by (simp add: graph_def registered_def createTalosDir_def createCluster_def exportKubeconfig_def
      waitForK8s_def applySecurityHardening_def verifyCluster_def)

lemma graph_vm:
  "graph (registered_vm h) =
     [(''create-dirs'', []),
      (''create-lima-config'', []),
      (''lima-vm'', [''create-dirs'', ''create-lima-config'']),
      (''create-talos-cluster'', [''lima-vm'']),
      (''export-kubeconfig'', [''create-talos-cluster'']),
      (''wait-for-kubernetes'', [''export-kubeconfig'']),
      (''apply-security-hardening'', [''wait-for-kubernetes'']),
      (''verify-cluster'', [''apply-security-hardening''])]"
  by (simp add: graph_def registered_vm_def createDirs_def createLimaConfig_def limaVm_def
      createCluster_vm_def exportKubeconfig_vm_def
      waitForK8s_def applySecurityHardening_vm_def verifyCluster_vm_def)

text \<open>
  C6, as stated, fails on the program with the virtual machine: its graph is not a strict
  chain, and \<^verbatim>\<open>create-dirs\<close> and \<^verbatim>\<open>create-lima-config\<close> are independent of each other.
\<close>

theorem vm_graph_is_no_chain:
  "\<not> strict_chain (graph (registered_vm ''/Users/justin'')) \<and>
   independent (graph (registered_vm ''/Users/justin'')) ''create-dirs'' ''create-lima-config''"
  unfolding graph_vm by code_simp

text \<open>
  C6, amended: in \<^verbatim>\<open>main.go\<close> the graph is a strict chain and no two steps are independent.
  In the program with the virtual machine \<^verbatim>\<open>create-lima-config\<close> declares no dependency and
  \<^verbatim>\<open>lima-vm\<close> declares both \<^verbatim>\<open>create-dirs\<close> and \<^verbatim>\<open>create-lima-config\<close>; from \<^verbatim>\<open>lima-vm\<close> on
  every step declares exactly the step before it, and the only two independent steps are
  \<^verbatim>\<open>create-dirs\<close> and \<^verbatim>\<open>create-lima-config\<close>.
\<close>

theorem dependency_graphs:
  "strict_chain (graph (registered h)) \<and>
   independent_pairs (graph (registered h)) = [] \<and>
   take 3 (graph (registered_vm h)) =
     [(''create-dirs'', []),
      (''create-lima-config'', []),
      (''lima-vm'', [''create-dirs'', ''create-lima-config''])] \<and>
   chain (drop 2 (graph (registered_vm h))) \<and>
   independent_pairs (graph (registered_vm h)) = [(''create-dirs'', ''create-lima-config'')]"
  unfolding graph_main graph_vm by code_simp

subsection \<open>Steps and their dependencies\<close>





end
